theory Spec2Isabelle
  imports Main "HOL-Library.AList"
begin

section \<open>Values shared by the job model\<close>

text \<open>
  The embedding follows \<^verbatim>\<open>src/rest-server/src/models/job.js\<close>. JavaScript strings are
  modelled as \<^typ>\<open>string\<close>; a value that may be \<^verbatim>\<open>null\<close> or \<^verbatim>\<open>undefined\<close> (what lodash
  calls nil) is an \<^typ>\<open>'a option\<close>. Objects are finite maps or association lists over
  their own properties.
\<close>

datatype jsval =
    JUndefined
  | JNull
  | JBool bool
  | JNum int
  | JStr string
  | JObj "(string \<times> jsval) list"

text \<open>\<^verbatim>\<open>createError(status, code, message)\<close> is given a number or a status name.\<close>

datatype http_status = StatusCode int | StatusName string

datatype js_error =
    TypeError
  | YAMLException string
  | SyntaxError
  | HttpError http_status string string
  | StoreError string
  | KeygenError string

text \<open>
  \<^verbatim>\<open>obj[key] = value\<close> on an object created by \<^verbatim>\<open>{}\<close>, as a list of its own properties in
  the order of insertion: the value of a property already present is replaced, a new
  property is appended. The name \<^verbatim>\<open>__proto__\<close> is the exception: the assignment goes to the
  setter inherited from \<^verbatim>\<open>Object.prototype\<close>, which sets the prototype (or does nothing for
  a value that is not an object) and creates no own property.
\<close>

definition assignProperty :: "string \<Rightarrow> 'a \<Rightarrow> (string \<times> 'a) list \<Rightarrow> (string \<times> 'a) list" where
  "assignProperty key v obj = (if key = ''__proto__'' then obj else AList.update key v obj)"

section \<open>State translation\<close>

text \<open>\<^verbatim>\<open>convertJobState(frameworkState, exitCode)\<close>: the \<^verbatim>\<open>switch\<close> with its fall-through
  cases, the comparisons on the exit code being strict (\<^verbatim>\<open>===\<close>).\<close>

definition convertJobState :: "string \<Rightarrow> int option \<Rightarrow> string" where
  "convertJobState frameworkState exitCode =
     (if frameworkState = ''FRAMEWORK_WAITING''
         \<or> frameworkState = ''APPLICATION_CREATED''
         \<or> frameworkState = ''APPLICATION_LAUNCHED''
         \<or> frameworkState = ''APPLICATION_WAITING''
         \<or> frameworkState = ''APPLICATION_RETRIEVING_DIAGNOSTICS''
         \<or> frameworkState = ''APPLICATION_COMPLETED''
      then ''WAITING''
      else if frameworkState = ''APPLICATION_RUNNING'' then ''RUNNING''
      else if frameworkState = ''FRAMEWORK_COMPLETED'' then
        (if exitCode = Some 0 then ''SUCCEEDED''
         else if exitCode = Some (- 7351) then ''STOPPED''
         else ''FAILED'')
      else ''UNKNOWN'')"

text \<open>\<^verbatim>\<open>convertTaskState(taskState, exitCode)\<close>.\<close>

definition convertTaskState :: "string \<Rightarrow> int option \<Rightarrow> string" where
  "convertTaskState taskState exitCode =
     (if taskState = ''TASK_WAITING''
         \<or> taskState = ''CONTAINER_REQUESTED''
         \<or> taskState = ''CONTAINER_ALLOCATED''
         \<or> taskState = ''CONTAINER_COMPLETED''
      then ''WAITING''
      else if taskState = ''CONTAINER_RUNNING'' then ''RUNNING''
      else if taskState = ''TASK_COMPLETED'' then
        (if exitCode = Some 0 then ''SUCCEEDED'' else ''FAILED'')
      else ''UNKNOWN'')"

text \<open>The framework states the \<^verbatim>\<open>switch\<close> of \<^verbatim>\<open>convertJobState\<close> names.\<close>

definition preRunningStates :: "string list" where
  "preRunningStates =
     [''FRAMEWORK_WAITING'', ''APPLICATION_CREATED'', ''APPLICATION_LAUNCHED'',
      ''APPLICATION_WAITING'', ''APPLICATION_RETRIEVING_DIAGNOSTICS'',
      ''APPLICATION_COMPLETED'']"

definition recognizedStates :: "string list" where
  "recognizedStates = preRunningStates @ [''APPLICATION_RUNNING'', ''FRAMEWORK_COMPLETED'']"

section \<open>Exit specification table\<close>

text \<open>
  A row of the exit-spec table: its \<^verbatim>\<open>code\<close> and its other properties (phrase, reason,
  solution, ...) in order. The table itself is read from a YAML file at start-up, so
  the row list \<^verbatim>\<open>exitSpecList\<close> is a parameter of the model.
\<close>

record exitSpec =
  code :: int
  attrs :: "(string \<times> string) list"

definition positiveFallbackExitCode :: int where
  "positiveFallbackExitCode = 256"

definition negativeFallbackExitCode :: int where
  "negativeFallbackExitCode = - 8000"

text \<open>\<^verbatim>\<open>exitSpecList.forEach((val) => { exitSpecMap[val.code] = val; })\<close>: a later row
  with the same code replaces an earlier one.\<close>

definition exitSpecMap :: "exitSpec list \<Rightarrow> (int \<rightharpoonup> exitSpec)" where
  "exitSpecMap exitSpecList = fold (\<lambda>val m. m(code val \<mapsto> val)) exitSpecList Map.empty"

text \<open>\<^verbatim>\<open>{...entry, code}\<close>: spreading \<^verbatim>\<open>undefined\<close> contributes no property, so the result
  then has the \<^verbatim>\<open>code\<close> property alone.\<close>

definition spreadWithCode :: "exitSpec option \<Rightarrow> int \<Rightarrow> exitSpec" where
  "spreadWithCode entry c =
     (case entry of
        None \<Rightarrow> \<lparr>code = c, attrs = []\<rparr>
      | Some e \<Rightarrow> e\<lparr>code := c\<rparr>)"

text \<open>\<^verbatim>\<open>generateExitSpec(code)\<close>; the result \<^verbatim>\<open>null\<close> is \<^term>\<open>None\<close>.\<close>

definition generateExitSpec :: "exitSpec list \<Rightarrow> int option \<Rightarrow> exitSpec option" where
  "generateExitSpec exitSpecList codeArg =
     (case codeArg of
        None \<Rightarrow> None
      | Some c \<Rightarrow>
          (case exitSpecMap exitSpecList c of
             Some e \<Rightarrow> Some e
           | None \<Rightarrow>
               if c > 0
               then Some (spreadWithCode (exitSpecMap exitSpecList positiveFallbackExitCode) c)
               else Some (spreadWithCode (exitSpecMap exitSpecList negativeFallbackExitCode) c)))"

section \<open>String primitives\<close>

text \<open>
  The characters of a \<^typ>\<open>string\<close> are eight-bit code units, so the model covers
  diagnostics and paths in the Latin-1 range. \<^verbatim>\<open>String.prototype.trim\<close> strips white space
  and line terminators; in that range these are the seven characters below.
\<close>

definition isWhiteSpace :: "char \<Rightarrow> bool" where
  "isWhiteSpace c =
     (c = CHR 0x09 \<or> c = CHR 0x0A \<or> c = CHR 0x0B \<or> c = CHR 0x0C \<or> c = CHR 0x0D
      \<or> c = CHR 0x20 \<or> c = CHR 0xA0)"

definition trim :: "string \<Rightarrow> string" where
  "trim s = rev (dropWhile isWhiteSpace (rev (dropWhile isWhiteSpace s)))"

text \<open>The regular-expression atom \<^verbatim>\<open>.\<close> matches any character but a line terminator.\<close>

definition isLineTerminator :: "char \<Rightarrow> bool" where
  "isLineTerminator c = (c = CHR 0x0A \<or> c = CHR 0x0D)"

text \<open>\<^verbatim>\<open>s.substring(start, end)\<close>: the two indices are swapped when \<^verbatim>\<open>start > end\<close>, and
  both are clamped to the length of the string.\<close>

definition substring :: "string \<Rightarrow> nat \<Rightarrow> nat \<Rightarrow> string" where
  "substring s start end = take (max start end - min start end) (drop (min start end) s)"

text \<open>
  A pattern is modelled by its matcher at the head of the input: \<^term>\<open>Some n\<close> when the
  pattern matches a prefix of length \<open>n\<close>. \<^verbatim>\<open>matchLit\<close> is a literal; \<^verbatim>\<open>lazyDotUntil lit\<close> is
  \<^verbatim>\<open>.*?\<close> followed by the literal \<open>lit\<close> (the shortest run of non-terminator characters
  after which \<open>lit\<close> stands); \<^verbatim>\<open>matchLazy\<close> is \<^verbatim>\<open>lit1.*?lit2\<close>.
\<close>

definition matchLit :: "string \<Rightarrow> string \<Rightarrow> nat option" where
  "matchLit lit s = (if take (length lit) s = lit then Some (length lit) else None)"

fun lazyDotUntil :: "string \<Rightarrow> string \<Rightarrow> nat option" where
  "lazyDotUntil lit [] = (if lit = [] then Some 0 else None)"
| "lazyDotUntil lit (c # cs) =
     (if take (length lit) (c # cs) = lit then Some (length lit)
      else if isLineTerminator c then None
      else map_option Suc (lazyDotUntil lit cs))"

definition matchLazy :: "string \<Rightarrow> string \<Rightarrow> string \<Rightarrow> nat option" where
  "matchLazy lit1 lit2 s =
     (if take (length lit1) s = lit1
      then map_option (\<lambda>n. length lit1 + n) (lazyDotUntil lit2 (drop (length lit1) s))
      else None)"

text \<open>\<^verbatim>\<open>s.match(re)\<close> for a pattern without the global flag: the leftmost position at
  which the pattern matches, as (\<^verbatim>\<open>index\<close>, length of \<^verbatim>\<open>match[0]\<close>).\<close>

fun regexSearch :: "(string \<Rightarrow> nat option) \<Rightarrow> string \<Rightarrow> (nat \<times> nat) option" where
  "regexSearch m [] = map_option (\<lambda>n. (0, n)) (m [])"
| "regexSearch m (c # cs) =
     (case m (c # cs) of
        Some n \<Rightarrow> Some (0, n)
      | None \<Rightarrow> map_option (\<lambda>(i, n). (Suc i, n)) (regexSearch m cs))"

text \<open>\<^verbatim>\<open>s.replace(re, '')\<close> for a pattern without the global flag: the leftmost match is
  removed.\<close>

definition removeFirstMatch :: "(string \<Rightarrow> nat option) \<Rightarrow> string \<Rightarrow> string" where
  "removeFirstMatch m s =
     (case regexSearch m s of
        None \<Rightarrow> s
      | Some (i, n) \<Rightarrow> take i s @ drop (i + n) s)"

section \<open>Diagnostics extraction\<close>

definition containerAnchor1 :: "string \<Rightarrow> nat option" where
  "containerAnchor1 = matchLazy ''ExitCodeException exitCode'' '':''"

definition containerAnchor2 :: "string \<Rightarrow> nat option" where
  "containerAnchor2 = matchLit ''at org.apache.hadoop.util.Shell.runCommand''"

definition runtimeAnchor1 :: "string \<Rightarrow> nat option" where
  "runtimeAnchor1 = matchLit ''[PAI_RUNTIME_ERROR_START]''"

definition runtimeAnchor2 :: "string \<Rightarrow> nat option" where
  "runtimeAnchor2 = matchLit ''[PAI_RUNTIME_ERROR_END]''"

definition runtimeSpan :: "string \<Rightarrow> nat option" where
  "runtimeSpan = matchLazy ''[PAI_RUNTIME_ERROR_START]'' ''[PAI_RUNTIME_ERROR_END]''"

text \<open>
  In the three extractors \<^verbatim>\<open>_.isEmpty(diag)\<close> holds of nil and of the empty string.
  \<^verbatim>\<open>extractContainerStderr(diag)\<close> returns \<^verbatim>\<open>null\<close> on empty diagnostics and \<^verbatim>\<open>undefined\<close>
  (the function falls off its end) when an anchor is missing.
\<close>

definition extractContainerStderr :: "string option \<Rightarrow> jsval" where
  "extractContainerStderr diag =
     (case diag of
        None \<Rightarrow> JNull
      | Some d \<Rightarrow>
          if d = [] then JNull
          else
            (case regexSearch containerAnchor1 d of
               None \<Rightarrow> JUndefined
             | Some (i1, n1) \<Rightarrow>
                 (case regexSearch containerAnchor2 d of
                    None \<Rightarrow> JUndefined
                  | Some (i2, n2) \<Rightarrow> JStr (trim (substring d (i1 + n1) i2)))))"

text \<open>
  \<^verbatim>\<open>extractRuntimeOutput(diag)\<close>. \<^verbatim>\<open>yaml.safeLoad\<close> belongs to the library js-yaml; it is
  the parameter \<open>safeLoad\<close>, which returns the loaded document or raises
  (\<^term>\<open>Inl\<close>). The function has no handler, so what \<open>safeLoad\<close> raises leaves it.
\<close>

definition extractRuntimeOutput ::
  "(string \<Rightarrow> js_error + jsval) \<Rightarrow> string option \<Rightarrow> js_error + jsval" where
  "extractRuntimeOutput safeLoad diag =
     (case diag of
        None \<Rightarrow> Inr JNull
      | Some d \<Rightarrow>
          if d = [] then Inr JNull
          else
            (case regexSearch runtimeAnchor1 d of
               None \<Rightarrow> Inr JUndefined
             | Some (i1, n1) \<Rightarrow>
                 (case regexSearch runtimeAnchor2 d of
                    None \<Rightarrow> Inr JUndefined
                  | Some (i2, n2) \<Rightarrow> safeLoad (trim (substring d (i1 + n1) i2)))))"

text \<open>\<^verbatim>\<open>extractLauncherOutput(diag)\<close>.\<close>

definition extractLauncherOutput :: "string option \<Rightarrow> jsval" where
  "extractLauncherOutput diag =
     (case diag of
        None \<Rightarrow> JNull
      | Some d \<Rightarrow> if d = [] then JNull else JStr (trim (removeFirstMatch runtimeSpan d)))"

section \<open>Job detail\<close>

text \<open>
  The framework document of the launcher. Components the code tests for presence are
  options; properties that are only copied into the result are kept as \<^typ>\<open>jsval\<close>.
\<close>

record retryPolicyState =
  transientNormalRetriedCount :: int
  transientConflictRetriedCount :: int
  unKnownRetriedCount :: int

record frameworkStatus =
  frameworkState :: string
  applicationExitCode :: "int option"
  frameworkRetryPolicyState :: retryPolicyState
  frameworkCreatedTimestamp :: jsval
  frameworkCompletedTimestamp :: jsval
  applicationId :: jsval
  applicationProgress :: jsval
  applicationTrackingUrl :: jsval
  applicationLaunchedTimestamp :: jsval
  applicationCompletedTimestamp :: jsval
  applicationExitDiagnostics :: "string option"
  applicationExitTriggerMessage :: jsval
  applicationExitTriggerTaskRoleName :: jsval
  applicationExitTriggerTaskIndex :: jsval
  applicationExitType :: jsval

record taskStatus =
  taskIndex :: jsval
  taskState :: string
  containerId :: jsval
  containerIp :: jsval
  containerPorts :: "string option"
  containerGpus :: jsval
  containerLogHttpAddress :: jsval
  containerExitCode :: "int option"

record summarizedFrameworkInfo =
  sfi_frameworkName :: string
  sfi_userName :: string
  sfi_frameworkState :: string
  sfi_applicationExitCode :: "int option"
  sfi_executionType :: jsval
  sfi_frameworkRetryPolicyState :: retryPolicyState
  sfi_firstRequestTimestamp :: "int option"
  sfi_frameworkCompletedTimestamp :: jsval
  sfi_queue :: jsval
  sfi_totalGpuNumber :: jsval
  sfi_totalTaskNumber :: jsval
  sfi_totalTaskRoleNumber :: jsval

text \<open>\<^verbatim>\<open>fw_descriptorUserName\<close> is
  \<^verbatim>\<open>aggregatedFrameworkRequest.frameworkRequest.frameworkDescriptor\<close>, reduced to the
  \<^verbatim>\<open>user.name\<close> read from it; \<^verbatim>\<open>fw_taskRoleStatuses\<close> lists, for each key of
  \<^verbatim>\<open>aggregatedTaskRoleStatuses\<close>, its \<^verbatim>\<open>taskStatuses.taskStatusArray\<close>.\<close>

record framework =
  fw_name :: jsval
  fw_frameworkStatus :: "frameworkStatus option"
  fw_taskRoleStatuses :: "(string \<times> taskStatus list) list option"
  fw_summarizedFrameworkInfo :: "summarizedFrameworkInfo option"
  fw_descriptorUserName :: "string option"

record retryDetails =
  rd_user :: int
  rd_platform :: int
  rd_resource :: int

record appExitMessages =
  em_container :: jsval
  em_runtime :: jsval
  em_launcher :: jsval

text \<open>The object literal assigned to \<^verbatim>\<open>jobDetail.jobStatus\<close> when the framework status
  is present (without \<^verbatim>\<open>username\<close>, which is assigned again afterwards).\<close>

record jobStatusBody =
  js_name :: jsval
  js_state :: string
  js_subState :: string
  js_executionType :: jsval
  js_retries :: int
  js_retryDetails :: retryDetails
  js_createdTime :: jsval
  js_completedTime :: jsval
  js_appId :: jsval
  js_appProgress :: jsval
  js_appTrackingUrl :: jsval
  js_appLaunchedTime :: jsval
  js_appCompletedTime :: jsval
  js_appExitCode :: "int option"
  js_appExitSpec :: "exitSpec option"
  js_appExitMessages :: appExitMessages
  js_appExitTriggerMessage :: jsval
  js_appExitTriggerTaskRoleName :: jsval
  js_appExitTriggerTaskIndex :: jsval
  js_appExitDiagnostics :: "string option"
  js_appExitType :: jsval

text \<open>\<^verbatim>\<open>jobDetail.jobStatus\<close>: the body above when there is a framework status (the
  object stays \<^verbatim>\<open>{}\<close> otherwise), and the two properties set after it.\<close>

record jobStatus =
  st_body :: "jobStatusBody option"
  st_username :: "string option"
  st_virtualCluster :: "jsval option"

record taskDetail =
  td_taskIndex :: jsval
  td_taskState :: string
  td_containerId :: jsval
  td_containerIp :: jsval
  td_containerPorts :: "(string \<times> string option) list"
  td_containerGpus :: jsval
  td_containerLog :: jsval
  td_containerExitCode :: "int option"

record jobDetail =
  jd_jobStatus :: jobStatus
  jd_taskRoles :: "(string \<times> taskDetail list) list"

text \<open>\<^verbatim>\<open>s.split(sep)\<close> for a one-character separator.\<close>

fun split :: "char \<Rightarrow> string \<Rightarrow> string list" where
  "split sep [] = [[]]"
| "split sep (c # cs) =
     (if c = sep then [] # split sep cs
      else (case split sep cs of
              [] \<Rightarrow> [[c]]
            | w # ws \<Rightarrow> (c # w) # ws))"

text \<open>The loop over \<^verbatim>\<open>task.containerPorts.split(';')\<close>: \<^verbatim>\<open>port[1]\<close> is \<^verbatim>\<open>undefined\<close> when the
  piece has no colon.\<close>

definition parseContainerPorts :: "string option \<Rightarrow> (string \<times> string option) list" where
  "parseContainerPorts ports =
     (case ports of
        None \<Rightarrow> []
      | Some p \<Rightarrow>
          if p = [] then []
          else fold (\<lambda>portStr obj.
                 if length portStr > 0
                 then (case split CHR '':'' portStr of
                         [] \<Rightarrow> obj
                       | [k] \<Rightarrow> assignProperty k None obj
                       | k # v # _ \<Rightarrow> assignProperty k (Some v) obj)
                 else obj) (split CHR '';'' p) [])"

definition taskDetailOf :: "taskStatus \<Rightarrow> taskDetail" where
  "taskDetailOf task =
     \<lparr>td_taskIndex = taskIndex task,
      td_taskState = convertTaskState (taskState task) (containerExitCode task),
      td_containerId = containerId task,
      td_containerIp = containerIp task,
      td_containerPorts = parseContainerPorts (containerPorts task),
      td_containerGpus = containerGpus task,
      td_containerLog = containerLogHttpAddress task,
      td_containerExitCode = containerExitCode task\<rparr>"

text \<open>
  \<^verbatim>\<open>generateJobDetail(framework)\<close>. Inside the first \<^verbatim>\<open>if\<close> the code reads
  \<^verbatim>\<open>framework.summarizedFrameworkInfo.executionType\<close> before any test of
  \<^verbatim>\<open>summarizedFrameworkInfo\<close>, a \<^verbatim>\<open>TypeError\<close> when it is nil. The properties of the object
  literal are evaluated in order, so the runtime extractor is the last computation of the
  literal that can raise.
\<close>

definition generateJobStatusBody ::
  "exitSpec list \<Rightarrow> (string \<Rightarrow> js_error + jsval) \<Rightarrow> framework \<Rightarrow> frameworkStatus
     \<Rightarrow> js_error + jobStatusBody" where
  "generateJobStatusBody exitSpecList safeLoad fw st =
     (let jobState = convertJobState (frameworkState st) (applicationExitCode st);
          platformRetries = transientNormalRetriedCount (frameworkRetryPolicyState st);
          resourceRetries = transientConflictRetriedCount (frameworkRetryPolicyState st);
          userRetries = unKnownRetriedCount (frameworkRetryPolicyState st)
      in case fw_summarizedFrameworkInfo fw of
           None \<Rightarrow> Inl TypeError
         | Some info \<Rightarrow>
             (case extractRuntimeOutput safeLoad (applicationExitDiagnostics st) of
                Inl e \<Rightarrow> Inl e
              | Inr runtime \<Rightarrow>
                  Inr \<lparr>js_name = fw_name fw,
                       js_state = jobState,
                       js_subState = frameworkState st,
                       js_executionType = sfi_executionType info,
                       js_retries = platformRetries + resourceRetries + userRetries,
                       js_retryDetails =
                         \<lparr>rd_user = userRetries,
                          rd_platform = platformRetries,
                          rd_resource = resourceRetries\<rparr>,
                       js_createdTime = frameworkCreatedTimestamp st,
                       js_completedTime = frameworkCompletedTimestamp st,
                       js_appId = applicationId st,
                       js_appProgress = applicationProgress st,
                       js_appTrackingUrl = applicationTrackingUrl st,
                       js_appLaunchedTime = applicationLaunchedTimestamp st,
                       js_appCompletedTime = applicationCompletedTimestamp st,
                       js_appExitCode = applicationExitCode st,
                       js_appExitSpec = generateExitSpec exitSpecList (applicationExitCode st),
                       js_appExitMessages =
                         \<lparr>em_container = extractContainerStderr (applicationExitDiagnostics st),
                          em_runtime = runtime,
                          em_launcher = extractLauncherOutput (applicationExitDiagnostics st)\<rparr>,
                       js_appExitTriggerMessage = applicationExitTriggerMessage st,
                       js_appExitTriggerTaskRoleName = applicationExitTriggerTaskRoleName st,
                       js_appExitTriggerTaskIndex = applicationExitTriggerTaskIndex st,
                       js_appExitDiagnostics = applicationExitDiagnostics st,
                       js_appExitType = applicationExitType st\<rparr>))"

definition generateJobDetail ::
  "exitSpec list \<Rightarrow> (string \<Rightarrow> js_error + jsval) \<Rightarrow> framework \<Rightarrow> js_error + jobDetail" where
  "generateJobDetail exitSpecList safeLoad fw =
     (let rest = (\<lambda>b.
            \<lparr>jd_jobStatus =
               \<lparr>st_body = b,
                st_username =
                  (case fw_descriptorUserName fw of
                     Some n \<Rightarrow> Some n
                   | None \<Rightarrow> (case b of None \<Rightarrow> None | Some _ \<Rightarrow> Some ''unknown'')),
                st_virtualCluster = map_option sfi_queue (fw_summarizedFrameworkInfo fw)\<rparr>,
             jd_taskRoles =
               (case fw_taskRoleStatuses fw of
                  None \<Rightarrow> []
                | Some roles \<Rightarrow>
                    fold (\<lambda>(taskRole, tasks) obj.
                            assignProperty taskRole (map taskDetailOf tasks) obj) roles [])\<rparr>)
      in case fw_frameworkStatus fw of
           None \<Rightarrow> Inr (rest None)
         | Some st \<Rightarrow>
             (case generateJobStatusBody exitSpecList safeLoad fw st of
                Inl e \<Rightarrow> Inl e
              | Inr b \<Rightarrow> Inr (rest (Some b))))"

section \<open>Queries to the launcher\<close>

text \<open>A response of the launcher: \<^verbatim>\<open>res_body\<close> is the body as an object, or what
  \<^verbatim>\<open>JSON.parse\<close> raised on it.\<close>

record 'a response =
  res_status :: int
  res_body :: "js_error + 'a"
  res_raw_body :: string

text \<open>A value is falsy when it is nil or the empty string.\<close>

definition truthy :: "string option \<Rightarrow> bool" where
  "truthy v = (case v of None \<Rightarrow> False | Some s \<Rightarrow> s \<noteq> [])"

definition frameworkNameOf :: "string option \<Rightarrow> string \<Rightarrow> string" where
  "frameworkNameOf namespace name =
     (case namespace of
        None \<Rightarrow> name
      | Some ns \<Rightarrow> if ns = [] then name else ns @ ''~'' @ name)"

text \<open>
  \<^verbatim>\<open>getJob(name, namespace, next)\<close>: \<open>launcherGet\<close> is the launcher answering the request for
  a framework name; the result is the pair of arguments given to \<^verbatim>\<open>next\<close>. Everything
  raised inside the \<^verbatim>\<open>try\<close> block is handed to \<^verbatim>\<open>next\<close> as the error.
\<close>

definition getJob ::
  "exitSpec list \<Rightarrow> (string \<Rightarrow> js_error + jsval) \<Rightarrow> (string \<Rightarrow> framework response)
     \<Rightarrow> string \<Rightarrow> string option \<Rightarrow> jobDetail option \<times> js_error option" where
  "getJob exitSpecList safeLoad launcherGet name namespace =
     (let requestRes = launcherGet (frameworkNameOf namespace name)
      in case res_body requestRes of
           Inl e \<Rightarrow> (None, Some e)
         | Inr requestResJson \<Rightarrow>
             if res_status requestRes = 200 then
               (case generateJobDetail exitSpecList safeLoad requestResJson of
                  Inl e \<Rightarrow> (None, Some e)
                | Inr detail \<Rightarrow> (Some detail, None))
             else if res_status requestRes = 404 then
               (None, Some (HttpError (StatusName ''Not Found'') ''NoJobError''
                              (''Job '' @ name @ '' is not found.'')))
             else
               (None, Some (HttpError (StatusCode (res_status requestRes)) ''UnknownError''
                              (res_raw_body requestRes))))"

record jobSummary =
  job_name :: string
  job_username :: string
  job_state :: string
  job_subState :: string
  job_executionType :: jsval
  job_retries :: int
  job_retryDetails :: retryDetails
  job_createdTime :: int
  job_completedTime :: jsval
  job_appExitCode :: "int option"
  job_virtualCluster :: jsval
  job_totalGpuNumber :: jsval
  job_totalTaskNumber :: jsval
  job_totalTaskRoleNumber :: jsval
  job_namespace :: "string option"
  job_legacy :: bool

text \<open>\<^verbatim>\<open>s.indexOf(c)\<close>, with \<^term>\<open>None\<close> for \<open>-1\<close>.\<close>

fun indexOf :: "char \<Rightarrow> string \<Rightarrow> nat option" where
  "indexOf c [] = None"
| "indexOf c (x # xs) = (if x = c then Some 0 else map_option Suc (indexOf c xs))"

text \<open>
  The function mapped over \<^verbatim>\<open>summarizedFrameworkInfos\<close> in \<^verbatim>\<open>getJobList\<close>.
  \<open>defaultCreatedTime\<close> is \<^verbatim>\<open>new Date(2018, 1, 1).getTime()\<close>, which depends on the time
  zone of the server.
\<close>

definition summarizeFramework :: "int \<Rightarrow> summarizedFrameworkInfo \<Rightarrow> jobSummary" where
  "summarizeFramework defaultCreatedTime frameworkInfo =
     (let platformRetries = transientNormalRetriedCount (sfi_frameworkRetryPolicyState frameworkInfo);
          resourceRetries = transientConflictRetriedCount (sfi_frameworkRetryPolicyState frameworkInfo);
          userRetries = unKnownRetriedCount (sfi_frameworkRetryPolicyState frameworkInfo);
          job =
            \<lparr>job_name = sfi_frameworkName frameworkInfo,
             job_username = sfi_userName frameworkInfo,
             job_state = convertJobState (sfi_frameworkState frameworkInfo)
                           (sfi_applicationExitCode frameworkInfo),
             job_subState = sfi_frameworkState frameworkInfo,
             job_executionType = sfi_executionType frameworkInfo,
             job_retries = platformRetries + resourceRetries + userRetries,
             job_retryDetails =
               \<lparr>rd_user = userRetries,
                rd_platform = platformRetries,
                rd_resource = resourceRetries\<rparr>,
             job_createdTime =
               (case sfi_firstRequestTimestamp frameworkInfo of
                  None \<Rightarrow> defaultCreatedTime
                | Some t \<Rightarrow> if t = 0 then defaultCreatedTime else t),
             job_completedTime = sfi_frameworkCompletedTimestamp frameworkInfo,
             job_appExitCode = sfi_applicationExitCode frameworkInfo,
             job_virtualCluster = sfi_queue frameworkInfo,
             job_totalGpuNumber = sfi_totalGpuNumber frameworkInfo,
             job_totalTaskNumber = sfi_totalTaskNumber frameworkInfo,
             job_totalTaskRoleNumber = sfi_totalTaskRoleNumber frameworkInfo,
             job_namespace = None,
             job_legacy = False\<rparr>
      in case indexOf CHR ''~'' (job_name job) of
           Some tildeIndex \<Rightarrow>
             (let namespace = take tildeIndex (job_name job);
                  job1 = (if namespace \<noteq> job_username job
                          then job\<lparr>job_namespace := Some namespace\<rparr> else job)
              in job1\<lparr>job_name := drop (tildeIndex + 1) (job_name job)\<rparr>)
         | None \<Rightarrow> job\<lparr>job_legacy := True\<rparr>)"

text \<open>
  The response handler of \<^verbatim>\<open>getJobList\<close>; the result is the pair of arguments given to
  \<^verbatim>\<open>next\<close>. The list is sorted by decreasing \<^verbatim>\<open>createdTime\<close>, jobs created at the same
  time staying in the order of the response.
\<close>

definition getJobList ::
  "int \<Rightarrow> summarizedFrameworkInfo list response \<Rightarrow> jobSummary list option \<times> js_error option" where
  "getJobList defaultCreatedTime res =
     (case res_body res of
        Inl e \<Rightarrow> (None, Some e)
      | Inr summarizedFrameworkInfos \<Rightarrow>
          if res_status res \<noteq> 200 then
            (None, Some (HttpError (StatusCode (res_status res)) ''UnknownError'' (res_raw_body res)))
          else
            (Some (sort_key (\<lambda>job. - job_createdTime job)
                     (map (summarizeFramework defaultCreatedTime) summarizedFrameworkInfos)),
             None))"

section \<open>Job specification and configuration\<close>

record portSpec =
  label :: string
  beginAt :: int
  portNumber :: int

record taskRoleSpec =
  name :: string
  taskNumber :: int
  cpuNumber :: int
  memoryMB :: int
  gpuNumber :: int
  portList :: "portSpec list"
  minFailedTaskCount :: "int option"
  minSucceededTaskCount :: "int option"
  command :: string

text \<open>\<^verbatim>\<open>data.originalData\<close>, the request body as it was received.\<close>

record originalData =
  od_outputDir :: "string option"
  od_others :: "(string \<times> jsval) list"

text \<open>
  The job specification \<^verbatim>\<open>data\<close> handed to \<^verbatim>\<open>putJob\<close>. \<^verbatim>\<open>jobEnvs\<close> lists the own properties
  of the object in their order; \<^verbatim>\<open>others\<close> holds the properties this module does not read
  itself (the templates receive the whole object).
\<close>

record jobData =
  jobName :: string
  userName :: string
  virtualCluster :: "string option"
  gpuType :: "string option"
  retryCount :: int
  taskRoles :: "taskRoleSpec list"
  jobEnvs :: "(string \<times> jsval) list option"
  authFile :: string
  dataDir :: string
  outputDir :: string
  codeDir :: string
  originalData :: originalData
  others :: "(string \<times> jsval) list"

record amResource =
  am_cpuNumber :: jsval
  am_memoryMB :: jsval
  am_diskType :: jsval
  am_diskMB :: jsval

record portDefinition =
  pd_start :: int
  pd_count :: int

record resource =
  r_cpuNumber :: int
  r_memoryMB :: int
  r_gpuNumber :: int
  r_portDefinitions :: "(string \<times> portDefinition) list"
  r_diskType :: int
  r_diskMB :: int

record taskService =
  ts_version :: int
  ts_entryPoint :: string
  ts_sourceLocations :: "string list"
  ts_resource :: resource

text \<open>A value of \<^verbatim>\<open>frameworkDescription.taskRoles\<close>; the two properties of
  \<^verbatim>\<open>applicationCompletionPolicy\<close> are fields of the record.\<close>

record taskRoleDescription =
  fd_taskNumber :: int
  fd_taskService :: taskService
  fd_minFailedTaskCount :: "int option"
  fd_minSucceededTaskCount :: "int option"

text \<open>The framework description; the properties of \<^verbatim>\<open>user\<close>, \<^verbatim>\<open>retryPolicy\<close> and
  \<^verbatim>\<open>platformSpecificParameters\<close> are fields of the record. Objects built property by
  property are association lists in the order of insertion.\<close>

record frameworkDescription =
  fd_version :: int
  fd_userName :: string
  fd_maxRetryCount :: int
  fd_fancyRetryPolicy :: bool
  fd_taskRoles :: "(string \<times> taskRoleDescription) list"
  fd_queue :: string
  fd_taskNodeGpuType :: "string option"
  fd_gangAllocation :: bool
  fd_amResource :: amResource

text \<open>The view given to \<^verbatim>\<open>mustache.render\<close> by \<^verbatim>\<open>generateYarnContainerScript\<close>.\<close>

record yarnView =
  yv_idx :: nat
  yv_tasksNumber :: int
  yv_taskRoleList :: string
  yv_taskRolesNumber :: nat
  yv_hdfsUri :: string
  yv_aggregatedStatusUri :: string
  yv_frameworkInfoWebhdfsUri :: string
  yv_taskData :: "taskRoleSpec option"
  yv_jobData :: jobData
  yv_inspectPidFormat :: string
  yv_jobEnvs :: "(string \<times> jsval) list"
  yv_azRDMA :: bool
  yv_isDebug :: bool
  yv_reqAzRDMA :: bool

text \<open>The view given to \<^verbatim>\<open>mustache.render\<close> by \<^verbatim>\<open>generateDockerContainerScript\<close>.\<close>

record dockerView =
  dv_idx :: nat
  dv_hdfsUri :: string
  dv_taskData :: "taskRoleSpec option"
  dv_jobData :: jobData
  dv_webHdfsUri :: string
  dv_azRDMA :: bool
  dv_paiMachineList :: jsval
  dv_reqAzRDMA :: bool
  dv_isDebug :: bool
  dv_debuggingReservationSeconds :: jsval

text \<open>
  What the module reads from \<^verbatim>\<open>config/launcher\<close>, \<^verbatim>\<open>config/azure\<close> and
  \<^verbatim>\<open>config/paiConfig\<close>, none of which is part of this file, together with the library
  functions applied to the values built here: \<^verbatim>\<open>renderYarn\<close> and \<^verbatim>\<open>renderDocker\<close> are
  \<^verbatim>\<open>mustache.render\<close> at the two script templates, the two \<^verbatim>\<open>stringify\<close> functions are
  \<^verbatim>\<open>JSON.stringify(_, null, 2)\<close>.
\<close>

record config =
  hdfsUri :: string
  webhdfsUri :: string
  amResource :: amResource
  jobConfigFileName :: string
  frameworkDescriptionFilename :: string
  frameworkAggregatedStatusPath :: "string \<Rightarrow> string"
  frameworkInfoWebhdfsPath :: "string \<Rightarrow> string"
  azRDMA :: jsval
  machineList :: jsval
  debuggingReservationSeconds :: jsval
  renderYarn :: "yarnView \<Rightarrow> string"
  renderDocker :: "dockerView \<Rightarrow> string"
  stringifyOriginalData :: "originalData \<Rightarrow> string"
  stringifyFrameworkDescription :: "frameworkDescription \<Rightarrow> string"

section \<open>Framework description and container scripts\<close>

text \<open>The decimal numeral of an index, as a template literal prints it.\<close>

definition digitChar :: "nat \<Rightarrow> char" where
  "digitChar d = ''0123456789'' ! d"

fun showNat :: "nat \<Rightarrow> string" where
  "showNat n = (if n < 10 then [digitChar n] else showNat (n div 10) @ [digitChar (n mod 10)])"

declare showNat.simps [simp del]

text \<open>The first inner loop of \<^verbatim>\<open>generateFrameworkDescription\<close>, the assignments
  \<^verbatim>\<open>portList[label] = {start, count}\<close>. (The engine enumerates property names that are
  array indices before the others; no result below depends on the order of the
  properties.)\<close>

definition suppliedPorts :: "portSpec list \<Rightarrow> (string \<times> portDefinition) list" where
  "suppliedPorts ports =
     fold (\<lambda>p acc. assignProperty (label p) \<lparr>pd_start = beginAt p, pd_count = portNumber p\<rparr> acc)
       ports []"

text \<open>The second inner loop, over \<^verbatim>\<open>['http', 'ssh']\<close>. The test \<^verbatim>\<open>defaultPortLabel in portList\<close>
  also looks along the prototype chain, where neither name is found: \<^verbatim>\<open>Object.prototype\<close>
  has no such property, and a prototype set by a port labelled \<^verbatim>\<open>__proto__\<close> has the
  properties \<^verbatim>\<open>start\<close> and \<^verbatim>\<open>count\<close> only.\<close>

definition addDefaultPorts :: "(string \<times> portDefinition) list \<Rightarrow> (string \<times> portDefinition) list" where
  "addDefaultPorts ports =
     fold (\<lambda>defaultPortLabel acc.
             if defaultPortLabel \<in> set (map fst acc) then acc
             else assignProperty defaultPortLabel \<lparr>pd_start = 0, pd_count = 1\<rparr> acc)
       [''http'', ''ssh''] ports"

text \<open>The object \<^verbatim>\<open>taskRole\<close> built for index \<open>i\<close> in the outer loop.\<close>

definition taskRoleDescriptionOf :: "jobData \<Rightarrow> nat \<Rightarrow> taskRoleDescription" where
  "taskRoleDescriptionOf data i =
     (let role = taskRoles data ! i;
          portList = addDefaultPorts (suppliedPorts (portList role))
      in \<lparr>fd_taskNumber = taskNumber role,
          fd_taskService =
            \<lparr>ts_version = 0,
             ts_entryPoint = ''bash YarnContainerScripts/'' @ showNat i @ ''.sh'',
             ts_sourceLocations =
               [''/Container/'' @ userName data @ ''/'' @ jobName data @ ''/YarnContainerScripts''],
             ts_resource =
               \<lparr>r_cpuNumber = cpuNumber role,
                r_memoryMB = memoryMB role,
                r_gpuNumber = gpuNumber role,
                r_portDefinitions = portList,
                r_diskType = 0,
                r_diskMB = 0\<rparr>\<rparr>,
          fd_minFailedTaskCount = minFailedTaskCount role,
          fd_minSucceededTaskCount = minSucceededTaskCount role\<rparr>)"

text \<open>\<^verbatim>\<open>generateFrameworkDescription(data)\<close>. The outer loop runs over the indices below
  \<^verbatim>\<open>data.taskRoles.length\<close>, so every \<^verbatim>\<open>data.taskRoles[i]\<close> is in range.\<close>

definition generateFrameworkDescription :: "config \<Rightarrow> jobData \<Rightarrow> frameworkDescription" where
  "generateFrameworkDescription cfg data =
     \<lparr>fd_version = 10,
      fd_userName = userName data,
      fd_maxRetryCount = retryCount data,
      fd_fancyRetryPolicy = (retryCount data \<noteq> - 2),
      fd_taskRoles =
        fold (\<lambda>i acc. assignProperty (name (taskRoles data ! i)) (taskRoleDescriptionOf data i) acc)
          [0 ..< length (taskRoles data)] [],
      fd_queue =
        (case virtualCluster data of
           None \<Rightarrow> ''default''
         | Some vc \<Rightarrow> if vc = [] then ''default'' else vc),
      fd_taskNodeGpuType = (if truthy (gpuType data) then gpuType data else None),
      fd_gangAllocation = True,
      fd_amResource =
        \<lparr>am_cpuNumber = am_cpuNumber (amResource cfg),
         am_memoryMB = am_memoryMB (amResource cfg),
         am_diskType = am_diskType (amResource cfg),
         am_diskMB = am_diskMB (amResource cfg)\<rparr>\<rparr>"

text \<open>\<^verbatim>\<open>xs.join(',')\<close>.\<close>

fun join :: "string \<Rightarrow> string list \<Rightarrow> string" where
  "join sep [] = []"
| "join sep [x] = x"
| "join sep (x # y # ys) = x @ sep @ join sep (y # ys)"

text \<open>\<^verbatim>\<open>data.jobEnvs && data.jobEnvs[key] === true ? true : false\<close>.\<close>

definition envFlag :: "jobData \<Rightarrow> string \<Rightarrow> bool" where
  "envFlag data key =
     (case jobEnvs data of
        None \<Rightarrow> False
      | Some envs \<Rightarrow> map_of envs key = Some (JBool True))"

text \<open>\<^verbatim>\<open>xs[idx]\<close>, \<^verbatim>\<open>undefined\<close> out of range.\<close>

definition nthOpt :: "'a list \<Rightarrow> nat \<Rightarrow> 'a option" where
  "nthOpt xs i = (if i < length xs then Some (xs ! i) else None)"

definition yarnViewOf :: "config \<Rightarrow> jobData \<Rightarrow> nat \<Rightarrow> yarnView" where
  "yarnViewOf cfg data idx =
     \<lparr>yv_idx = idx,
      yv_tasksNumber = fold (\<lambda>role tasksNumber. tasksNumber + taskNumber role) (taskRoles data) 0,
      yv_taskRoleList = join '','' (map name (taskRoles data)),
      yv_taskRolesNumber = length (taskRoles data),
      yv_hdfsUri = hdfsUri cfg,
      yv_aggregatedStatusUri = frameworkAggregatedStatusPath cfg (jobName data),
      yv_frameworkInfoWebhdfsUri = frameworkInfoWebhdfsPath cfg (jobName data),
      yv_taskData = nthOpt (taskRoles data) idx,
      yv_jobData = data,
      yv_inspectPidFormat = ''{{.State.Pid}}'',
      yv_jobEnvs = (case jobEnvs data of None \<Rightarrow> [] | Some envs \<Rightarrow> envs),
      yv_azRDMA = (azRDMA cfg \<noteq> JStr ''false''),
      yv_isDebug = envFlag data ''isDebug'',
      yv_reqAzRDMA = envFlag data ''paiAzRDMA''\<rparr>"

definition generateYarnContainerScript :: "config \<Rightarrow> jobData \<Rightarrow> nat \<Rightarrow> string" where
  "generateYarnContainerScript cfg data idx = renderYarn cfg (yarnViewOf cfg data idx)"

definition dockerViewOf :: "config \<Rightarrow> jobData \<Rightarrow> nat \<Rightarrow> dockerView" where
  "dockerViewOf cfg data idx =
     \<lparr>dv_idx = idx,
      dv_hdfsUri = hdfsUri cfg,
      dv_taskData = nthOpt (taskRoles data) idx,
      dv_jobData = data,
      dv_webHdfsUri = webhdfsUri cfg,
      dv_azRDMA = (azRDMA cfg \<noteq> JStr ''false''),
      dv_paiMachineList = machineList cfg,
      dv_reqAzRDMA = envFlag data ''paiAzRDMA'',
      dv_isDebug = envFlag data ''isDebug'',
      dv_debuggingReservationSeconds = debuggingReservationSeconds cfg\<rparr>"

definition generateDockerContainerScript :: "config \<Rightarrow> jobData \<Rightarrow> nat \<Rightarrow> string" where
  "generateDockerContainerScript cfg data idx = renderDocker cfg (dockerViewOf cfg data idx)"

section \<open>Job submission\<close>

text \<open>
  The placeholder substitutions of \<^verbatim>\<open>putJob\<close>. \<^verbatim>\<open>\w\<close> and \<^verbatim>\<open>\d\<close> together are the letters,
  the digits and the underscore. The replacement text is inserted as it is (names and
  URIs carry no \<^verbatim>\<open>$\<close> replacement pattern).
\<close>

definition isWordChar :: "char \<Rightarrow> bool" where
  "isWordChar c =
     (c \<in> set ''abcdefghijklmnopqrstuvwxyzABCDEFGHIJKLMNOPQRSTUVWXYZ0123456789_'')"

text \<open>A literal followed by the negative lookahead \<^verbatim>\<open>(?![\w\d])\<close>.\<close>

definition matchLitNoWord :: "string \<Rightarrow> string \<Rightarrow> nat option" where
  "matchLitNoWord lit s =
     (if take (length lit) s = lit
         \<and> (case drop (length lit) s of [] \<Rightarrow> True | c # _ \<Rightarrow> \<not> isWordChar c)
      then Some (length lit) else None)"

text \<open>An alternation: the second alternative is tried when the first fails.\<close>

definition matchAlt :: "(string \<Rightarrow> nat option) \<Rightarrow> (string \<Rightarrow> nat option) \<Rightarrow> string \<Rightarrow> nat option" where
  "matchAlt m1 m2 s = (case m1 s of Some n \<Rightarrow> Some n | None \<Rightarrow> m2 s)"

text \<open>\<^verbatim>\<open>s.replace(pattern, rep)\<close> for a string pattern: the first occurrence only.\<close>

definition replaceFirst :: "string \<Rightarrow> string \<Rightarrow> string \<Rightarrow> string" where
  "replaceFirst pat rep s =
     (case regexSearch (matchLit pat) s of
        None \<Rightarrow> s
      | Some (i, n) \<Rightarrow> take i s @ rep @ drop (i + n) s)"

text \<open>\<^verbatim>\<open>s.replace(re, rep)\<close> for a pattern with the global flag whose matches are not
  empty: the scan resumes after each match; the first argument counts the characters of
  the current match still to skip.\<close>

fun replaceAllFrom :: "nat \<Rightarrow> (string \<Rightarrow> nat option) \<Rightarrow> string \<Rightarrow> string \<Rightarrow> string" where
  "replaceAllFrom k m rep [] = []"
| "replaceAllFrom (Suc k) m rep (c # cs) = replaceAllFrom k m rep cs"
| "replaceAllFrom 0 m rep (c # cs) =
     (case m (c # cs) of
        Some (Suc n) \<Rightarrow> rep @ replaceAllFrom n m rep cs
      | _ \<Rightarrow> c # replaceAllFrom 0 m rep cs)"

definition replaceAll :: "(string \<Rightarrow> nat option) \<Rightarrow> string \<Rightarrow> string \<Rightarrow> string" where
  "replaceAll m rep s = replaceAllFrom 0 m rep s"

text \<open>The body of the loop over \<^verbatim>\<open>['authFile', 'dataDir', 'outputDir', 'codeDir']\<close>.\<close>

definition substitutePath :: "config \<Rightarrow> string \<Rightarrow> string \<Rightarrow> string \<Rightarrow> string" where
  "substitutePath cfg jobname user p =
     replaceAll (matchAlt (matchLitNoWord ''$PAI_USER_NAME'') (matchLitNoWord ''$PAI_USERNAME'')) user
       (replaceAll (matchLitNoWord ''$PAI_JOB_NAME'') jobname
          (replaceFirst ''$PAI_DEFAULT_FS_URI'' (hdfsUri cfg) p))"

text \<open>
  The synchronous part of \<^verbatim>\<open>putJob(name, namespace, data, next)\<close>: the assignments to the
  properties of the object \<^verbatim>\<open>data\<close> the caller passed in. The result is the object as the
  caller finds it afterwards.
\<close>

definition putJobData :: "config \<Rightarrow> string \<Rightarrow> string option \<Rightarrow> jobData \<Rightarrow> jobData" where
  "putJobData cfg jobname namespace data =
     (let data1 = data\<lparr>jobName := frameworkNameOf namespace jobname\<rparr>;
          data2 = (if \<not> truthy (od_outputDir (originalData data1))
                   then data1\<lparr>outputDir :=
                          hdfsUri cfg @ ''/Output/'' @ userName data1 @ ''/'' @ jobname\<rparr>
                   else data1);
          data3 = data2\<lparr>authFile := substitutePath cfg jobname (userName data2) (authFile data2)\<rparr>;
          data4 = data3\<lparr>dataDir := substitutePath cfg jobname (userName data3) (dataDir data3)\<rparr>;
          data5 = data4\<lparr>outputDir := substitutePath cfg jobname (userName data4) (outputDir data4)\<rparr>
      in data5\<lparr>codeDir := substitutePath cfg jobname (userName data5) (codeDir data5)\<rparr>)"

text \<open>
  The collaborators of a submission: the user model, the distributed store (the arguments
  of \<^verbatim>\<open>createFolder\<close> are the path, the user and the permission; those of \<^verbatim>\<open>createFile\<close> the
  path, the content, the user and the permission), the host platform, the key generator
  (public key, private key) and the launcher answering the \<^verbatim>\<open>PUT\<close> (status, raw body).
  Each returns what it hands to its callback. \<^verbatim>\<open>completionOrder\<close> arranges the outcomes of
  tasks started together in the order in which they complete.
\<close>

record env =
  checkUserVc :: "string \<Rightarrow> string option \<Rightarrow> js_error option"
  createFolder :: "string \<Rightarrow> string \<Rightarrow> string \<Rightarrow> js_error option"
  createFile :: "string \<Rightarrow> string \<Rightarrow> string \<Rightarrow> string \<Rightarrow> js_error option"
  platform :: string
  keygen :: "string \<Rightarrow> js_error + string \<times> string"
  launcherPut :: "string \<Rightarrow> frameworkDescription \<Rightarrow> int \<times> string"
  completionOrder :: "js_error option list \<Rightarrow> js_error option list"

text \<open>\<^verbatim>\<open>async.parallel\<close> and \<^verbatim>\<open>async.each\<close> call the final callback with the first error
  that arrives, or without an error once every task has completed.\<close>

fun firstError :: "js_error option list \<Rightarrow> js_error option" where
  "firstError [] = None"
| "firstError (None # rs) = firstError rs"
| "firstError (Some e # rs) = Some e"

definition asyncJoin :: "env \<Rightarrow> js_error option list \<Rightarrow> js_error option" where
  "asyncJoin ev outcomes = firstError (completionOrder ev outcomes)"

definition toUpperCase :: "string \<Rightarrow> string" where
  "toUpperCase s =
     map (\<lambda>c. case map_of (zip ''abcdefghijklmnopqrstuvwxyz'' ''ABCDEFGHIJKLMNOPQRSTUVWXYZ'') c of
                 None \<Rightarrow> c
               | Some u \<Rightarrow> u) s"

text \<open>\<^verbatim>\<open>_initializeJobContextRootFolders(next)\<close>.\<close>

definition initializeJobContextRootFolders :: "env \<Rightarrow> js_error option" where
  "initializeJobContextRootFolders ev =
     asyncJoin ev
       [createFolder ev ''/Output'' ''root'' ''777'',
        createFolder ev ''/Container'' ''root'' ''777'']"

text \<open>The seven tasks of \<^verbatim>\<open>_prepareJobContext(name, data, next)\<close>, in the order of the
  source. For a task that is an \<^verbatim>\<open>async.each\<close>, the list of the outcomes of its store
  operations is named too.\<close>

definition outputFolderTask :: "env \<Rightarrow> string \<Rightarrow> jobData \<Rightarrow> js_error option" where
  "outputFolderTask ev jobname data =
     (if \<not> truthy (od_outputDir (originalData data))
      then createFolder ev (''/Output/'' @ userName data @ ''/'' @ jobname) (userName data) ''755''
      else None)"

definition workFolderOutcomes :: "env \<Rightarrow> string \<Rightarrow> jobData \<Rightarrow> js_error option list" where
  "workFolderOutcomes ev jobname data =
     map (\<lambda>x. createFolder ev (''/Container/'' @ userName data @ ''/'' @ jobname @ ''/'' @ x)
                 (userName data) ''755'')
       [''log'', ''tmp'']"

definition workFoldersTask :: "env \<Rightarrow> string \<Rightarrow> jobData \<Rightarrow> js_error option" where
  "workFoldersTask ev jobname data = asyncJoin ev (workFolderOutcomes ev jobname data)"

definition yarnScriptOutcomes :: "env \<Rightarrow> config \<Rightarrow> string \<Rightarrow> jobData \<Rightarrow> js_error option list" where
  "yarnScriptOutcomes ev cfg jobname data =
     map (\<lambda>x. createFile ev
                 (''/Container/'' @ userName data @ ''/'' @ jobname @ ''/YarnContainerScripts/''
                    @ showNat x @ ''.sh'')
                 (generateYarnContainerScript cfg data x) (userName data) ''644'')
       [0 ..< length (taskRoles data)]"

definition yarnScriptsTask :: "env \<Rightarrow> config \<Rightarrow> string \<Rightarrow> jobData \<Rightarrow> js_error option" where
  "yarnScriptsTask ev cfg jobname data = asyncJoin ev (yarnScriptOutcomes ev cfg jobname data)"

definition dockerScriptOutcomes :: "env \<Rightarrow> config \<Rightarrow> string \<Rightarrow> jobData \<Rightarrow> js_error option list" where
  "dockerScriptOutcomes ev cfg jobname data =
     map (\<lambda>x. createFile ev
                 (''/Container/'' @ userName data @ ''/'' @ jobname @ ''/DockerContainerScripts/''
                    @ showNat x @ ''.sh'')
                 (generateDockerContainerScript cfg data x) (userName data) ''644'')
       [0 ..< length (taskRoles data)]"

definition dockerScriptsTask :: "env \<Rightarrow> config \<Rightarrow> string \<Rightarrow> jobData \<Rightarrow> js_error option" where
  "dockerScriptsTask ev cfg jobname data = asyncJoin ev (dockerScriptOutcomes ev cfg jobname data)"

definition jobConfigTask :: "env \<Rightarrow> config \<Rightarrow> string \<Rightarrow> jobData \<Rightarrow> js_error option" where
  "jobConfigTask ev cfg jobname data =
     createFile ev (''/Container/'' @ userName data @ ''/'' @ jobname @ ''/'' @ jobConfigFileName cfg)
       (stringifyOriginalData cfg (originalData data)) (userName data) ''644''"

definition frameworkDescriptionTask :: "env \<Rightarrow> config \<Rightarrow> string \<Rightarrow> jobData \<Rightarrow> js_error option" where
  "frameworkDescriptionTask ev cfg jobname data =
     createFile ev
       (''/Container/'' @ userName data @ ''/'' @ jobname @ ''/'' @ frameworkDescriptionFilename cfg)
       (stringifyFrameworkDescription cfg (generateFrameworkDescription cfg data))
       (userName data) ''644''"

text \<open>The uploads of the two key files, once the keys exist.\<close>

definition sshKeyUploads :: "env \<Rightarrow> string \<Rightarrow> jobData \<Rightarrow> string \<times> string \<Rightarrow> js_error option list" where
  "sshKeyUploads ev jobname data keys =
     map (\<lambda>(content, fileName).
            createFile ev
              (''/Container/'' @ userName data @ ''/'' @ jobname @ ''/ssh/keyFiles/'' @ fileName)
              content (userName data) ''775'')
       [(fst keys, jobname @ ''.pub''), (snd keys, jobname)]"

definition sshKeyTask :: "env \<Rightarrow> string \<Rightarrow> jobData \<Rightarrow> js_error option" where
  "sshKeyTask ev jobname data =
     (if toUpperCase (platform ev) = ''LINUX'' then
        (case keygen ev jobname of
           Inl err \<Rightarrow> None
         | Inr keys \<Rightarrow> asyncJoin ev (sshKeyUploads ev jobname data keys))
      else None)"

definition prepareJobContext :: "env \<Rightarrow> config \<Rightarrow> string \<Rightarrow> jobData \<Rightarrow> js_error option" where
  "prepareJobContext ev cfg jobname data =
     asyncJoin ev
       [outputFolderTask ev jobname data,
        workFoldersTask ev jobname data,
        yarnScriptsTask ev cfg jobname data,
        dockerScriptsTask ev cfg jobname data,
        jobConfigTask ev cfg jobname data,
        frameworkDescriptionTask ev cfg jobname data,
        sshKeyTask ev jobname data]"

text \<open>
  \<^verbatim>\<open>putJob(name, namespace, data, next)\<close>: the object \<^verbatim>\<open>data\<close> after the call, and the
  argument of \<^verbatim>\<open>next\<close> (\<^term>\<open>None\<close> for the call without an error).
\<close>

definition putJob ::
  "env \<Rightarrow> config \<Rightarrow> string \<Rightarrow> string option \<Rightarrow> jobData \<Rightarrow> jobData \<times> js_error option" where
  "putJob ev cfg jobname namespace data0 =
     (let frameworkName = frameworkNameOf namespace jobname;
          data = putJobData cfg jobname namespace data0
      in (data,
          case checkUserVc ev (userName data) (virtualCluster data) of
            Some e \<Rightarrow> Some e
          | None \<Rightarrow>
              (case initializeJobContextRootFolders ev of
                 Some e \<Rightarrow> Some e
               | None \<Rightarrow>
                   (case prepareJobContext ev cfg frameworkName data of
                      Some e \<Rightarrow> Some e
                    | None \<Rightarrow>
                        (case launcherPut ev frameworkName (generateFrameworkDescription cfg data) of
                           (status, raw_body) \<Rightarrow>
                             if status = 202 then None
                             else Some (HttpError (StatusCode status) ''UnknownError'' raw_body))))))"

section \<open>Failure of a provisioning run\<close>



text \<open>The port definitions of a task role of the framework description.\<close>

definition portDefinitionsOf :: "taskRoleDescription \<Rightarrow> (string \<times> portDefinition) list" where
  "portDefinitionsOf desc = r_portDefinitions (ts_resource (fd_taskService desc))"

section \<open>Deep equality of job specifications\<close>





section \<open>Sample inputs\<close>

text \<open>Concrete values at which the results below are evaluated.\<close>

definition sampleExitSpecList :: "exitSpec list" where
  "sampleExitSpecList =
     [\<lparr>code = 0, attrs = [(''phrase'', ''Succeeded'')]\<rparr>,
      \<lparr>code = 256, attrs = [(''phrase'', ''UnknownPositiveExitCode'')]\<rparr>,
      \<lparr>code = - 8000, attrs = [(''phrase'', ''UnknownNegativeExitCode'')]\<rparr>,
      \<lparr>code = - 7351, attrs = [(''phrase'', ''StoppedByUser'')]\<rparr>]"

text \<open>
  A loader that does what js-yaml does on the texts of the examples: the empty text loads
  as \<^verbatim>\<open>undefined\<close>, \<^verbatim>\<open>null\<close> and \<^verbatim>\<open>~\<close> load as \<^verbatim>\<open>null\<close>, a lone \<^verbatim>\<open>{\<close> is rejected with a
  \<^verbatim>\<open>YAMLException\<close>, and a single word loads as that string.
\<close>

definition sampleSafeLoad :: "string \<Rightarrow> js_error + jsval" where
  "sampleSafeLoad s =
     (if s = [] then Inr JUndefined
      else if s = ''null'' \<or> s = ''~'' then Inr JNull
      else if s = ''{'' then Inl (YAMLException ''unexpected end of the stream within a flow collection'')
      else Inr (JStr s))"

definition sampleRetryState :: retryPolicyState where
  "sampleRetryState =
     \<lparr>transientNormalRetriedCount = 1,
      transientConflictRetriedCount = 2,
      unKnownRetriedCount = 3\<rparr>"

definition sampleStatus :: "string \<Rightarrow> int option \<Rightarrow> string option \<Rightarrow> frameworkStatus" where
  "sampleStatus fstate exitCode diag =
     \<lparr>frameworkState = fstate,
      applicationExitCode = exitCode,
      frameworkRetryPolicyState = sampleRetryState,
      frameworkCreatedTimestamp = JNum 1546300800000,
      frameworkCompletedTimestamp = JNull,
      applicationId = JStr ''application_1546300800000_0001'',
      applicationProgress = JNum 0,
      applicationTrackingUrl = JNull,
      applicationLaunchedTimestamp = JNull,
      applicationCompletedTimestamp = JNull,
      applicationExitDiagnostics = diag,
      applicationExitTriggerMessage = JNull,
      applicationExitTriggerTaskRoleName = JNull,
      applicationExitTriggerTaskIndex = JNull,
      applicationExitType = JNull\<rparr>"

definition sampleInfo :: "string \<Rightarrow> int option \<Rightarrow> summarizedFrameworkInfo" where
  "sampleInfo fname created =
     \<lparr>sfi_frameworkName = fname,
      sfi_userName = ''alice'',
      sfi_frameworkState = ''APPLICATION_RUNNING'',
      sfi_applicationExitCode = None,
      sfi_executionType = JStr ''START'',
      sfi_frameworkRetryPolicyState = sampleRetryState,
      sfi_firstRequestTimestamp = created,
      sfi_frameworkCompletedTimestamp = JNull,
      sfi_queue = JStr ''default'',
      sfi_totalGpuNumber = JNum 1,
      sfi_totalTaskNumber = JNum 1,
      sfi_totalTaskRoleNumber = JNum 1\<rparr>"

definition sampleFramework :: "string \<Rightarrow> int option \<Rightarrow> string option \<Rightarrow> framework" where
  "sampleFramework fstate exitCode diag =
     \<lparr>fw_name = JStr ''alice~job1'',
      fw_frameworkStatus = Some (sampleStatus fstate exitCode diag),
      fw_taskRoleStatuses = None,
      fw_summarizedFrameworkInfo = Some (sampleInfo ''alice~job1'' (Some 1546300800000)),
      fw_descriptorUserName = Some ''alice''\<rparr>"

definition sampleLauncherGet :: "framework \<Rightarrow> string \<Rightarrow> framework response" where
  "sampleLauncherGet fw path = \<lparr>res_status = 200, res_body = Inr fw, res_raw_body = []\<rparr>"

definition sampleListResponse :: "summarizedFrameworkInfo list response" where
  "sampleListResponse =
     \<lparr>res_status = 200,
      res_body = Inr [sampleInfo ''alice~job1'' (Some 1546300800000), sampleInfo ''job0'' None],
      res_raw_body = []\<rparr>"

definition diagMalformed :: string where
  "diagMalformed = ''AM failed [PAI_RUNTIME_ERROR_START]{[PAI_RUNTIME_ERROR_END]''"

definition diagNullPayload :: string where
  "diagNullPayload =
     ''ExitCodeException exitCode=1: oops at org.apache.hadoop.util.Shell.runCommand [PAI_RUNTIME_ERROR_START]null[PAI_RUNTIME_ERROR_END]''"

definition diagAllSegments :: string where
  "diagAllSegments =
     ''ExitCodeException exitCode=1: oops at org.apache.hadoop.util.Shell.runCommand [PAI_RUNTIME_ERROR_START]OOM[PAI_RUNTIME_ERROR_END]''"

definition diagPlain :: string where
  "diagPlain = '' container killed by the scheduler ''"

text \<open>The body of the job status in the result of \<^verbatim>\<open>generateJobDetail\<close>, when the call
  returned and the body is there.\<close>

definition bodyOf :: "js_error + jobDetail \<Rightarrow> jobStatusBody option" where
  "bodyOf r = (case r of Inl e \<Rightarrow> None | Inr detail \<Rightarrow> st_body (jd_jobStatus detail))"

text \<open>A configuration whose YarnContainer template prints the role index and then, in a
  section over \<^verbatim>\<open>jobEnvs\<close>, the key of each entry it is given, and whose DockerContainer
  template prints the role index.\<close>

definition sampleConfig :: config where
  "sampleConfig =
     \<lparr>hdfsUri = ''hdfs://10.0.0.1:9000'',
      webhdfsUri = ''http://10.0.0.1:50070'',
      amResource = \<lparr>am_cpuNumber = JNum 1, am_memoryMB = JNum 1024,
                      am_diskType = JNum 0, am_diskMB = JNum 0\<rparr>,
      jobConfigFileName = ''JobConfig.yaml'',
      frameworkDescriptionFilename = ''FrameworkDescription.json'',
      frameworkAggregatedStatusPath = (\<lambda>n. ''/v1/Frameworks/'' @ n @ ''/AggregatedFrameworkStatus''),
      frameworkInfoWebhdfsPath = (\<lambda>n. ''/webhdfs/v1/Launcher/'' @ n @ ''/FrameworkInfo.json''),
      azRDMA = JStr ''false'',
      machineList = JNull,
      debuggingReservationSeconds = JNum 604800,
      renderYarn = (\<lambda>view. ''yarn script '' @ showNat (yv_idx view)
                             @ concat (map (\<lambda>(key, v). '' --env '' @ key) (yv_jobEnvs view))),
      renderDocker = (\<lambda>view. ''docker script '' @ showNat (dv_idx view)),
      stringifyOriginalData = (\<lambda>d. ''{}''),
      stringifyFrameworkDescription = (\<lambda>d. ''{}'')\<rparr>"

definition sampleWorker :: taskRoleSpec where
  "sampleWorker =
     \<lparr>name = ''worker'', taskNumber = 2, cpuNumber = 4, memoryMB = 8192, gpuNumber = 1,
      portList = [\<lparr>label = ''ssh'', beginAt = 5000, portNumber = 1\<rparr>,
                  \<lparr>label = ''tensorboard'', beginAt = 6006, portNumber = 2\<rparr>],
      minFailedTaskCount = Some 1, minSucceededTaskCount = None,
      command = ''python train.py''\<rparr>"

definition samplePs :: taskRoleSpec where
  "samplePs =
     \<lparr>name = ''ps'', taskNumber = 1, cpuNumber = 2, memoryMB = 4096, gpuNumber = 0,
      portList = [],
      minFailedTaskCount = Some 1, minSucceededTaskCount = None,
      command = ''python ps.py''\<rparr>"

definition sampleData :: jobData where
  "sampleData =
     \<lparr>jobName = ''job1'',
      userName = ''alice'',
      virtualCluster = None,
      gpuType = None,
      retryCount = 3,
      taskRoles = [sampleWorker, samplePs],
      jobEnvs = None,
      authFile = [],
      dataDir = ''$PAI_DEFAULT_FS_URI/data/$PAI_USER_NAME'',
      outputDir = [],
      codeDir = ''$PAI_DEFAULT_FS_URI/$PAI_USERNAME/$PAI_JOB_NAME/code'',
      originalData = \<lparr>od_outputDir = None, od_others = []\<rparr>,
      others = [(''image'', JStr ''example/tensorflow'')]\<rparr>"

text \<open>
  A Linux host whose store accepts every folder and rejects exactly the files uploaded
  with the given permission; \<open>keys\<close> is the outcome of the key generator. Tasks started
  together complete in the reverse of their starting order.
\<close>

definition sampleEnv :: "js_error + string \<times> string \<Rightarrow> string \<Rightarrow> env" where
  "sampleEnv keys rejected =
     \<lparr>checkUserVc = (\<lambda>user vc. None),
      createFolder = (\<lambda>path user perm. None),
      createFile = (\<lambda>path content user perm.
                      if perm = rejected then Some (StoreError path) else None),
      platform = ''linux'',
      keygen = (\<lambda>location. keys),
      launcherPut = (\<lambda>path description. (202, [])),
      completionOrder = rev\<rparr>"




text \<open>A job specification with one task role, whose port list has the single label
  \<^verbatim>\<open>__proto__\<close>.\<close>

definition protoData :: jobData where
  "protoData =
     sampleData\<lparr>taskRoles :=
       [sampleWorker\<lparr>portList := [\<lparr>label = ''__proto__'', beginAt = 8000, portNumber = 1\<rparr>]\<rparr>]\<rparr>"

section \<open>State translation: results\<close>

text \<open>
  C1. \<^verbatim>\<open>convertJobState\<close> maps each of the six pre-running framework states to
  \<^verbatim>\<open>WAITING\<close> and \<^verbatim>\<open>APPLICATION_RUNNING\<close> to \<^verbatim>\<open>RUNNING\<close>; for \<^verbatim>\<open>FRAMEWORK_COMPLETED\<close> it returns
  \<^verbatim>\<open>SUCCEEDED\<close> on exit code 0, \<^verbatim>\<open>STOPPED\<close> on the stop code -7351 and \<^verbatim>\<open>FAILED\<close> on any
  other exit code (a missing one included); every other state string gives \<^verbatim>\<open>UNKNOWN\<close>.
  The function is total: on every input it returns one of the six job states.
\<close>

theorem convertJobState_total_mapping:
  "(fstate \<in> set preRunningStates \<longrightarrow> convertJobState fstate exitCode = ''WAITING'')
   \<and> (fstate = ''APPLICATION_RUNNING'' \<longrightarrow> convertJobState fstate exitCode = ''RUNNING'')
   \<and> (fstate = ''FRAMEWORK_COMPLETED'' \<and> exitCode = Some 0
        \<longrightarrow> convertJobState fstate exitCode = ''SUCCEEDED'')
   \<and> (fstate = ''FRAMEWORK_COMPLETED'' \<and> exitCode = Some (- 7351)
        \<longrightarrow> convertJobState fstate exitCode = ''STOPPED'')
   \<and> (fstate = ''FRAMEWORK_COMPLETED'' \<and> exitCode \<noteq> Some 0 \<and> exitCode \<noteq> Some (- 7351)
        \<longrightarrow> convertJobState fstate exitCode = ''FAILED'')
   \<and> (fstate \<notin> set recognizedStates \<longrightarrow> convertJobState fstate exitCode = ''UNKNOWN'')
   \<and> convertJobState fstate exitCode
        \<in> set [''WAITING'', ''RUNNING'', ''SUCCEEDED'', ''STOPPED'', ''FAILED'', ''UNKNOWN'']"
  by (simp add: convertJobState_def preRunningStates_def recognizedStates_def)

theorem convertJobState_total_mapping_witness:
  "convertJobState ''FRAMEWORK_WAITING'' None = ''WAITING''
   \<and> convertJobState ''APPLICATION_COMPLETED'' (Some 1) = ''WAITING''
   \<and> convertJobState ''APPLICATION_RUNNING'' (Some 3) = ''RUNNING''
   \<and> convertJobState ''FRAMEWORK_COMPLETED'' (Some 0) = ''SUCCEEDED''
   \<and> convertJobState ''FRAMEWORK_COMPLETED'' (Some (- 7351)) = ''STOPPED''
   \<and> convertJobState ''FRAMEWORK_COMPLETED'' (Some 1) = ''FAILED''
   \<and> convertJobState ''FRAMEWORK_COMPLETED'' None = ''FAILED''
   \<and> convertJobState ''framework_waiting'' (Some 0) = ''UNKNOWN''"
  using convertJobState_total_mapping [of "''FRAMEWORK_WAITING''" None]
    convertJobState_total_mapping [of "''APPLICATION_COMPLETED''" "Some 1"]
    convertJobState_total_mapping [of "''APPLICATION_RUNNING''" "Some 3"]
    convertJobState_total_mapping [of "''FRAMEWORK_COMPLETED''" "Some 0"]
    convertJobState_total_mapping [of "''FRAMEWORK_COMPLETED''" "Some (- 7351)"]
    convertJobState_total_mapping [of "''FRAMEWORK_COMPLETED''" "Some 1"]
    convertJobState_total_mapping [of "''FRAMEWORK_COMPLETED''" None]
    convertJobState_total_mapping [of "''framework_waiting''" "Some 0"]
  by (simp add: preRunningStates_def recognizedStates_def)

section \<open>Exit specification table: results\<close>

lemma find_app:
  "find P (xs @ ys) = (case find P xs of None \<Rightarrow> find P ys | Some x \<Rightarrow> Some x)"
  by (induction xs) auto

lemma find_SomeD: "find P xs = Some x \<Longrightarrow> x \<in> set xs \<and> P x"
  by (induction xs) (auto split: if_splits)

lemma exitSpecMap_fold:
  "fold (\<lambda>val m. m(code val \<mapsto> val)) L m c =
     (case find (\<lambda>e. code e = c) (rev L) of Some e \<Rightarrow> Some e | None \<Rightarrow> m c)"
  by (induction L arbitrary: m) (auto simp: find_app split: option.splits)

text \<open>The table maps a code to the last row of the list that carries it.\<close>

lemma exitSpecMap_find: "exitSpecMap L c = find (\<lambda>e. code e = c) (rev L)"
  by (simp add: exitSpecMap_def exitSpecMap_fold split: option.splits)

lemma exitSpecMap_None: "exitSpecMap L c = None \<longleftrightarrow> c \<notin> code ` set L"
  by (auto simp: exitSpecMap_find find_None_iff)

lemma exitSpecMap_Some: "exitSpecMap L c = Some e \<Longrightarrow> e \<in> set L \<and> code e = c"
  using find_SomeD [of "\<lambda>e. code e = c" "rev L" e] by (simp add: exitSpecMap_find)

text \<open>
  C2. For a nil code \<^verbatim>\<open>generateExitSpec\<close> returns \<^verbatim>\<open>null\<close>. For a code that is a key of
  the table it returns the table's entry for that code, a row of the loaded list carrying
  that code. For a code that is not a key it returns the spread of the fallback entry
  (that of 256 when the code is positive, that of -8000 otherwise) with \<^verbatim>\<open>code\<close> set to the
  queried code; when the table has the fallback entry \<open>fb\<close>, this is \<open>fb\<close> with its
  \<^verbatim>\<open>code\<close> field overwritten.
\<close>

theorem generateExitSpec_lookup:
  "generateExitSpec L None = None
   \<and> (c \<in> code ` set L \<longrightarrow>
        (\<exists>e \<in> set L. code e = c \<and> exitSpecMap L c = Some e \<and> generateExitSpec L (Some c) = Some e))
   \<and> (c \<notin> code ` set L \<and> c > 0 \<longrightarrow>
        generateExitSpec L (Some c) = Some (spreadWithCode (exitSpecMap L positiveFallbackExitCode) c))
   \<and> (c \<notin> code ` set L \<and> c \<le> 0 \<longrightarrow>
        generateExitSpec L (Some c) = Some (spreadWithCode (exitSpecMap L negativeFallbackExitCode) c))
   \<and> (\<forall>fb. exitSpecMap L k = Some fb \<longrightarrow> spreadWithCode (exitSpecMap L k) c = fb\<lparr>code := c\<rparr>)"
proof (intro conjI impI allI)
  show "generateExitSpec L None = None" by (simp add: generateExitSpec_def)
next
  assume "c \<in> code ` set L"
  then obtain e where e: "exitSpecMap L c = Some e"
    using exitSpecMap_None [of L c] by (cases "exitSpecMap L c") auto
  with exitSpecMap_Some [OF e] show "\<exists>e \<in> set L. code e = c \<and> exitSpecMap L c = Some e
      \<and> generateExitSpec L (Some c) = Some e"
    by (auto simp: generateExitSpec_def)
next
  assume "c \<notin> code ` set L \<and> c > 0"
  then show "generateExitSpec L (Some c)
      = Some (spreadWithCode (exitSpecMap L positiveFallbackExitCode) c)"
    using exitSpecMap_None [of L c] by (simp add: generateExitSpec_def)
next
  assume "c \<notin> code ` set L \<and> c \<le> 0"
  then show "generateExitSpec L (Some c)
      = Some (spreadWithCode (exitSpecMap L negativeFallbackExitCode) c)"
    using exitSpecMap_None [of L c] by (simp add: generateExitSpec_def)
next
  fix fb assume "exitSpecMap L k = Some fb"
  then show "spreadWithCode (exitSpecMap L k) c = fb\<lparr>code := c\<rparr>"
    by (simp add: spreadWithCode_def)
qed

theorem generateExitSpec_lookup_witness:
  "generateExitSpec sampleExitSpecList None = None
   \<and> generateExitSpec sampleExitSpecList (Some 0) = Some \<lparr>code = 0, attrs = [(''phrase'', ''Succeeded'')]\<rparr>
   \<and> generateExitSpec sampleExitSpecList (Some 5000)
       = Some \<lparr>code = 5000, attrs = [(''phrase'', ''UnknownPositiveExitCode'')]\<rparr>
   \<and> generateExitSpec sampleExitSpecList (Some (- 1))
       = Some \<lparr>code = - 1, attrs = [(''phrase'', ''UnknownNegativeExitCode'')]\<rparr>"
  using generateExitSpec_lookup [of sampleExitSpecList 0 256]
    generateExitSpec_lookup [of sampleExitSpecList 5000 256]
    generateExitSpec_lookup [of sampleExitSpecList "- 1" "- 8000"]
  by (simp add: sampleExitSpecList_def exitSpecMap_def positiveFallbackExitCode_def
      negativeFallbackExitCode_def spreadWithCode_def)

section \<open>Pattern search: results\<close>

lemma all_le_Suc: "(\<forall>i \<le> Suc n. P i) \<longleftrightarrow> P 0 \<and> (\<forall>i \<le> n. P (Suc i))"
proof
  assume "\<forall>i \<le> Suc n. P i"
  then show "P 0 \<and> (\<forall>i \<le> n. P (Suc i))" by simp
next
  assume a: "P 0 \<and> (\<forall>i \<le> n. P (Suc i))"
  show "\<forall>i \<le> Suc n. P i"
  proof (intro allI impI)
    fix i assume "i \<le> Suc n"
    with a show "P i" by (cases i) simp_all
  qed
qed

text \<open>A search fails exactly when the pattern matches at no position of the input.\<close>

lemma regexSearch_None_iff:
  "regexSearch m s = None \<longleftrightarrow> (\<forall>i \<le> length s. m (drop i s) = None)"
proof (induction s)
  case Nil
  then show ?case by simp
next
  case (Cons c cs)
  have split: "(\<forall>i \<le> length (c # cs). m (drop i (c # cs)) = None)
      \<longleftrightarrow> m (c # cs) = None \<and> (\<forall>i \<le> length cs. m (drop i cs) = None)"
    using all_le_Suc [of "length cs" "\<lambda>i. m (drop i (c # cs)) = None"] by simp
  show ?case
  proof (cases "m (c # cs)")
    case None
    then have "regexSearch m (c # cs) = None \<longleftrightarrow> regexSearch m cs = None" by simp
    with None Cons.IH split show ?thesis by simp
  next
    case (Some n)
    then have "regexSearch m (c # cs) \<noteq> None" by simp
    with Some split show ?thesis by simp
  qed
qed

lemma regexSearch_SomeD:
  assumes "regexSearch m s \<noteq> None"
  shows "\<exists>i n. i \<le> length s \<and> m (drop i s) = Some n"
proof -
  from assms regexSearch_None_iff [of m s]
  have "\<not> (\<forall>i \<le> length s. m (drop i s) = None)" by simp
  then obtain i where i: "i \<le> length s" and "m (drop i s) \<noteq> None" by blast
  then obtain n where "m (drop i s) = Some n" by (cases "m (drop i s)") simp_all
  with i have "i \<le> length s \<and> m (drop i s) = Some n" by simp
  then show ?thesis by (intro exI)
qed

lemma regexSearch_found:
  assumes "i \<le> length s" and "m (drop i s) \<noteq> None"
  shows "regexSearch m s \<noteq> None"
  using assms regexSearch_None_iff [of m s] by auto

lemma lazyDotUntil_occurs:
  "lazyDotUntil lit t = Some n \<Longrightarrow> \<exists>k \<le> length t. take (length lit) (drop k t) = lit"
proof (induction t arbitrary: n)
  case Nil
  then show ?case by (simp split: if_splits)
next
  case (Cons c cs)
  show ?case
  proof (cases "take (length lit) (c # cs) = lit")
    case True
    then have "take (length lit) (drop 0 (c # cs)) = lit" by simp
    then show ?thesis by blast
  next
    case False
    with Cons.prems obtain n' where "lazyDotUntil lit cs = Some n'"
      by (auto split: if_splits)
    from Cons.IH [OF this] obtain k where "k \<le> length cs" "take (length lit) (drop k cs) = lit"
      by blast
    then have "Suc k \<le> length (c # cs) \<and> take (length lit) (drop (Suc k) (c # cs)) = lit" by simp
    then show ?thesis by blast
  qed
qed

text \<open>Where \<^verbatim>\<open>lit1.*?lit2\<close> matches, \<open>lit1\<close> stands there and \<open>lit2\<close> stands somewhere in
  the input.\<close>

lemma matchLazy_needs_both:
  assumes "matchLazy lit1 lit2 (drop i s) = Some n"
  shows "matchLit lit1 (drop i s) \<noteq> None \<and> (\<exists>k \<le> length s. matchLit lit2 (drop k s) \<noteq> None)"
proof -
  from assms have p: "take (length lit1) (drop i s) = lit1"
    and "\<exists>n'. lazyDotUntil lit2 (drop (length lit1) (drop i s)) = Some n'"
    by (auto simp: matchLazy_def split: if_splits)
  then obtain n' where "lazyDotUntil lit2 (drop (length lit1 + i) s) = Some n'" by auto
  from lazyDotUntil_occurs [OF this]
  obtain k where k: "k \<le> length (drop (length lit1 + i) s)"
    "take (length lit2) (drop k (drop (length lit1 + i) s)) = lit2" by blast
  from p have p': "matchLit lit1 (drop i s) \<noteq> None" by (simp add: matchLit_def)
  have "\<exists>k \<le> length s. matchLit lit2 (drop k s) \<noteq> None"
  proof (cases "k + (length lit1 + i) \<le> length s")
    case True
    from k(2) have "matchLit lit2 (drop (k + (length lit1 + i)) s) \<noteq> None"
      by (simp add: matchLit_def)
    with True show ?thesis by blast
  next
    case False
    with k(1) have "length s \<le> k + (length lit1 + i)" by simp
    with k(2) have "lit2 = []" by simp
    then have "matchLit lit2 (drop 0 s) \<noteq> None" by (simp add: matchLit_def)
    moreover have "0 \<le> length s" by simp
    ultimately show ?thesis by blast
  qed
  with p' show ?thesis by simp
qed

lemma runtimeSpan_needs_both:
  assumes "runtimeSpan (drop i d) = Some n"
  shows "runtimeAnchor1 (drop i d) \<noteq> None \<and> (\<exists>k \<le> length d. runtimeAnchor2 (drop k d) \<noteq> None)"
  using assms unfolding runtimeSpan_def runtimeAnchor1_def runtimeAnchor2_def
  by (rule matchLazy_needs_both)

text \<open>The pattern removed by \<^verbatim>\<open>extractLauncherOutput\<close> matches only in a text in which
  both runtime markers are found.\<close>

lemma runtimeSpan_needs_markers:
  assumes "regexSearch runtimeAnchor1 d = None \<or> regexSearch runtimeAnchor2 d = None"
  shows "regexSearch runtimeSpan d = None"
proof (rule ccontr)
  assume "regexSearch runtimeSpan d \<noteq> None"
  from regexSearch_SomeD [OF this]
  obtain i n where i: "i \<le> length d" and m: "runtimeSpan (drop i d) = Some n"
    by blast
  from runtimeSpan_needs_both [OF m]
  obtain k where s: "runtimeAnchor1 (drop i d) \<noteq> None"
    and k: "k \<le> length d" and e: "runtimeAnchor2 (drop k d) \<noteq> None"
    by blast
  have "regexSearch runtimeAnchor1 d \<noteq> None"
    using i s by (rule regexSearch_found [where m = runtimeAnchor1])
  moreover have "regexSearch runtimeAnchor2 d \<noteq> None"
    using k e by (rule regexSearch_found [where m = runtimeAnchor2])
  ultimately show False using assms by auto
qed

section \<open>Diagnostics extraction: results\<close>

text \<open>
  C7, as the code has it. When the diagnostics are not empty, both container anchors and
  both runtime markers are found, and the loader returns for the delimited text a
  document that is neither \<^verbatim>\<open>null\<close> nor \<^verbatim>\<open>undefined\<close>, the three extractors return the
  trimmed container text, that document and a launcher string. When the diagnostics are
  not empty, a container anchor is missing and a runtime marker is missing, the container
  and runtime segments are \<^verbatim>\<open>undefined\<close> and the launcher segment is the trimmed text.
\<close>

theorem diagnostics_segments:
  "(d \<noteq> [] \<and> regexSearch containerAnchor1 d = Some (i1, n1)
      \<and> regexSearch containerAnchor2 d = Some (i2, n2)
      \<and> regexSearch runtimeAnchor1 d = Some (j1, m1)
      \<and> regexSearch runtimeAnchor2 d = Some (j2, m2)
      \<and> safeLoad (trim (substring d (j1 + m1) j2)) = Inr v \<and> v \<noteq> JNull \<and> v \<noteq> JUndefined
    \<longrightarrow> extractContainerStderr (Some d) = JStr (trim (substring d (i1 + n1) i2))
        \<and> extractRuntimeOutput safeLoad (Some d) = Inr v
        \<and> extractLauncherOutput (Some d) = JStr (trim (removeFirstMatch runtimeSpan d)))
   \<and> (d \<noteq> []
      \<and> (regexSearch containerAnchor1 d = None \<or> regexSearch containerAnchor2 d = None)
      \<and> (regexSearch runtimeAnchor1 d = None \<or> regexSearch runtimeAnchor2 d = None)
    \<longrightarrow> extractContainerStderr (Some d) = JUndefined
        \<and> extractRuntimeOutput safeLoad (Some d) = Inr JUndefined
        \<and> extractLauncherOutput (Some d) = JStr (trim d))"
proof (intro conjI impI)
  assume a: "d \<noteq> [] \<and> regexSearch containerAnchor1 d = Some (i1, n1)
      \<and> regexSearch containerAnchor2 d = Some (i2, n2)
      \<and> regexSearch runtimeAnchor1 d = Some (j1, m1)
      \<and> regexSearch runtimeAnchor2 d = Some (j2, m2)
      \<and> safeLoad (trim (substring d (j1 + m1) j2)) = Inr v \<and> v \<noteq> JNull \<and> v \<noteq> JUndefined"
  from a show "extractContainerStderr (Some d) = JStr (trim (substring d (i1 + n1) i2))"
    by (simp add: extractContainerStderr_def)
  from a show "extractRuntimeOutput safeLoad (Some d) = Inr v"
    by (simp add: extractRuntimeOutput_def)
  from a show "extractLauncherOutput (Some d) = JStr (trim (removeFirstMatch runtimeSpan d))"
    by (simp add: extractLauncherOutput_def)
next
  assume b: "d \<noteq> []
      \<and> (regexSearch containerAnchor1 d = None \<or> regexSearch containerAnchor2 d = None)
      \<and> (regexSearch runtimeAnchor1 d = None \<or> regexSearch runtimeAnchor2 d = None)"
  from b show "extractContainerStderr (Some d) = JUndefined"
    by (auto simp: extractContainerStderr_def split: option.splits)
  from b show "extractRuntimeOutput safeLoad (Some d) = Inr JUndefined"
    by (auto simp: extractRuntimeOutput_def split: option.splits)
  from b have "regexSearch runtimeSpan d = None" using runtimeSpan_needs_markers by blast
  with b show "extractLauncherOutput (Some d) = JStr (trim d)"
    by (simp add: extractLauncherOutput_def removeFirstMatch_def)
qed

theorem diagnostics_segments_witness:
  "extractContainerStderr (Some diagAllSegments) = JStr ''oops''
   \<and> extractRuntimeOutput sampleSafeLoad (Some diagAllSegments) = Inr (JStr ''OOM'')
   \<and> extractLauncherOutput (Some diagAllSegments)
       = JStr ''ExitCodeException exitCode=1: oops at org.apache.hadoop.util.Shell.runCommand''
   \<and> extractContainerStderr (Some diagPlain) = JUndefined
   \<and> extractRuntimeOutput sampleSafeLoad (Some diagPlain) = Inr JUndefined
   \<and> extractLauncherOutput (Some diagPlain) = JStr ''container killed by the scheduler''"
proof -
  have c1: "regexSearch containerAnchor1 diagAllSegments = Some (0, 29)" by code_simp
  have c2: "regexSearch containerAnchor2 diagAllSegments = Some (35, 42)" by code_simp
  have r1: "regexSearch runtimeAnchor1 diagAllSegments = Some (78, 25)" by code_simp
  have r2: "regexSearch runtimeAnchor2 diagAllSegments = Some (106, 23)" by code_simp
  have ld: "sampleSafeLoad (trim (substring diagAllSegments (78 + 25) 106)) = Inr (JStr ''OOM'')"
    by code_simp
  have ne: "diagAllSegments \<noteq> []" by code_simp
  have ct: "trim (substring diagAllSegments (0 + 29) 35) = ''oops''" by code_simp
  have lt: "trim (removeFirstMatch runtimeSpan diagAllSegments)
      = ''ExitCodeException exitCode=1: oops at org.apache.hadoop.util.Shell.runCommand''"
    by code_simp
  have p1: "regexSearch containerAnchor1 diagPlain = None" by code_simp
  have p2: "regexSearch runtimeAnchor1 diagPlain = None" by code_simp
  have pn: "diagPlain \<noteq> []" by code_simp
  have pt: "trim diagPlain = ''container killed by the scheduler''" by code_simp
  from diagnostics_segments [where d = diagAllSegments and ?i1.0 = 0 and ?n1.0 = 29 and ?i2.0 = 35
      and ?n2.0 = 42 and ?j1.0 = 78 and ?m1.0 = 25 and ?j2.0 = 106 and ?m2.0 = 23
      and safeLoad = sampleSafeLoad and v = "JStr ''OOM''"]
    c1 c2 r1 r2 ld ne ct lt
  have first: "extractContainerStderr (Some diagAllSegments) = JStr ''oops''
     \<and> extractRuntimeOutput sampleSafeLoad (Some diagAllSegments) = Inr (JStr ''OOM'')
     \<and> extractLauncherOutput (Some diagAllSegments)
         = JStr ''ExitCodeException exitCode=1: oops at org.apache.hadoop.util.Shell.runCommand''"
    by simp
  from diagnostics_segments [where d = diagPlain and safeLoad = sampleSafeLoad] p1 p2 pn pt
  have "extractContainerStderr (Some diagPlain) = JUndefined
     \<and> extractRuntimeOutput sampleSafeLoad (Some diagPlain) = Inr JUndefined
     \<and> extractLauncherOutput (Some diagPlain) = JStr ''container killed by the scheduler''"
    by simp
  with first show ?thesis by simp
qed

text \<open>
  C7, as the claim states it, fails where the delimited text parses to \<^verbatim>\<open>null\<close>: both
  pairs of markers are found and the loader accepts the payload, yet the runtime segment
  is \<^verbatim>\<open>null\<close>.
\<close>

theorem diagnostics_null_payload_counterexample:
  "regexSearch containerAnchor1 diagNullPayload = Some (0, 29)
   \<and> regexSearch containerAnchor2 diagNullPayload = Some (35, 42)
   \<and> regexSearch runtimeAnchor1 diagNullPayload = Some (78, 25)
   \<and> regexSearch runtimeAnchor2 diagNullPayload = Some (107, 23)
   \<and> sampleSafeLoad (trim (substring diagNullPayload (78 + 25) 107)) = Inr JNull
   \<and> extractRuntimeOutput sampleSafeLoad (Some diagNullPayload) = Inr JNull"
  by code_simp

section \<open>Job detail: results\<close>

lemma body_of_detail:
  assumes "bodyOf (generateJobDetail L safeLoad fw) = Some b"
  shows "\<exists>st. fw_frameworkStatus fw = Some st \<and> generateJobStatusBody L safeLoad fw st = Inr b"
  using assms
  by (auto simp: bodyOf_def generateJobDetail_def Let_def split: option.splits sum.splits)

lemma body_fields:
  assumes "generateJobStatusBody L safeLoad fw st = Inr b"
  shows "js_state b = convertJobState (frameworkState st) (applicationExitCode st)"
    and "js_appExitSpec b = generateExitSpec L (applicationExitCode st)"
    and "js_retries b = transientNormalRetriedCount (frameworkRetryPolicyState st)
           + transientConflictRetriedCount (frameworkRetryPolicyState st)
           + unKnownRetriedCount (frameworkRetryPolicyState st)"
    and "js_retryDetails b =
           \<lparr>rd_user = unKnownRetriedCount (frameworkRetryPolicyState st),
            rd_platform = transientNormalRetriedCount (frameworkRetryPolicyState st),
            rd_resource = transientConflictRetriedCount (frameworkRetryPolicyState st)\<rparr>"
  using assms
  by (auto simp: generateJobStatusBody_def Let_def split: option.splits sum.splits)

text \<open>
  C3, as the code has it. When the text between the runtime markers is rejected by the
  loader, \<^verbatim>\<open>extractRuntimeOutput\<close> raises the loader's error, \<^verbatim>\<open>generateJobDetail\<close> raises it
  too (no job detail is built), and \<^verbatim>\<open>getJob\<close>, on a response with status 200 carrying
  that document, hands the error to its callback without a job detail.
\<close>

theorem runtime_parse_failure_propagates:
  assumes "d \<noteq> []"
    and "regexSearch runtimeAnchor1 d = Some (i1, n1)"
    and "regexSearch runtimeAnchor2 d = Some (i2, n2)"
    and "safeLoad (trim (substring d (i1 + n1) i2)) = Inl err"
    and "fw_frameworkStatus fw = Some st"
    and "applicationExitDiagnostics st = Some d"
    and "fw_summarizedFrameworkInfo fw = Some info"
    and "res_body (launcherGet (frameworkNameOf namespace jobname)) = Inr fw"
    and "res_status (launcherGet (frameworkNameOf namespace jobname)) = 200"
  shows "extractRuntimeOutput safeLoad (Some d) = Inl err
    \<and> generateJobDetail L safeLoad fw = Inl err
    \<and> getJob L safeLoad launcherGet jobname namespace = (None, Some err)"
proof -
  from assms(1-4) have r: "extractRuntimeOutput safeLoad (Some d) = Inl err"
    by (simp add: extractRuntimeOutput_def)
  with assms(6,7) have "generateJobStatusBody L safeLoad fw st = Inl err"
    by (simp add: generateJobStatusBody_def Let_def)
  with assms(5) have g: "generateJobDetail L safeLoad fw = Inl err"
    by (simp add: generateJobDetail_def Let_def)
  with assms(8,9) have "getJob L safeLoad launcherGet jobname namespace = (None, Some err)"
    by (simp add: getJob_def Let_def)
  with r g show ?thesis by simp
qed

theorem runtime_parse_failure_propagates_witness:
  "extractRuntimeOutput sampleSafeLoad (Some diagMalformed)
     = Inl (YAMLException ''unexpected end of the stream within a flow collection'')
   \<and> generateJobDetail sampleExitSpecList sampleSafeLoad
       (sampleFramework ''FRAMEWORK_COMPLETED'' (Some 1) (Some diagMalformed))
     = Inl (YAMLException ''unexpected end of the stream within a flow collection'')
   \<and> getJob sampleExitSpecList sampleSafeLoad
       (sampleLauncherGet (sampleFramework ''FRAMEWORK_COMPLETED'' (Some 1) (Some diagMalformed)))
       ''job1'' (Some ''alice'')
     = (None, Some (YAMLException ''unexpected end of the stream within a flow collection''))"
proof -
  have ne: "diagMalformed \<noteq> []" by code_simp
  have r1: "regexSearch runtimeAnchor1 diagMalformed = Some (10, 25)" by code_simp
  have r2: "regexSearch runtimeAnchor2 diagMalformed = Some (36, 23)" by code_simp
  have ld: "sampleSafeLoad (trim (substring diagMalformed (10 + 25) 36))
      = Inl (YAMLException ''unexpected end of the stream within a flow collection'')"
    by code_simp
  have st: "fw_frameworkStatus (sampleFramework ''FRAMEWORK_COMPLETED'' (Some 1) (Some diagMalformed))
      = Some (sampleStatus ''FRAMEWORK_COMPLETED'' (Some 1) (Some diagMalformed))"
    by (simp add: sampleFramework_def)
  have dg: "applicationExitDiagnostics (sampleStatus ''FRAMEWORK_COMPLETED'' (Some 1) (Some diagMalformed))
      = Some diagMalformed"
    by (simp add: sampleStatus_def)
  have inf: "fw_summarizedFrameworkInfo (sampleFramework ''FRAMEWORK_COMPLETED'' (Some 1) (Some diagMalformed))
      = Some (sampleInfo ''alice~job1'' (Some 1546300800000))"
    by (simp add: sampleFramework_def)
  show ?thesis
    using runtime_parse_failure_propagates [where d = diagMalformed and ?i1.0 = 10 and ?n1.0 = 25
        and ?i2.0 = 36 and ?n2.0 = 23 and safeLoad = sampleSafeLoad
        and err = "YAMLException ''unexpected end of the stream within a flow collection''"
        and fw = "sampleFramework ''FRAMEWORK_COMPLETED'' (Some 1) (Some diagMalformed)"
        and st = "sampleStatus ''FRAMEWORK_COMPLETED'' (Some 1) (Some diagMalformed)"
        and info = "sampleInfo ''alice~job1'' (Some 1546300800000)"
        and launcherGet = "sampleLauncherGet (sampleFramework ''FRAMEWORK_COMPLETED'' (Some 1) (Some diagMalformed))"
        and namespace = "Some ''alice''" and jobname = "''job1''" and L = sampleExitSpecList,
        OF ne r1 r2 ld st dg inf]
    by (simp add: sampleLauncherGet_def)
qed

text \<open>
  C3, as the claim states it, fails: on diagnostics whose runtime span holds a malformed
  document the job-detail query does not succeed. The launcher extractor alone would
  return its segment, but \<^verbatim>\<open>getJob\<close> delivers no job detail, only the parse error.
\<close>

theorem runtime_parse_failure_counterexample:
  "extractLauncherOutput (Some diagMalformed) = JStr ''AM failed''
   \<and> fst (getJob sampleExitSpecList sampleSafeLoad
        (sampleLauncherGet (sampleFramework ''FRAMEWORK_COMPLETED'' (Some 1) (Some diagMalformed)))
        ''job1'' (Some ''alice'')) = None
   \<and> snd (getJob sampleExitSpecList sampleSafeLoad
        (sampleLauncherGet (sampleFramework ''FRAMEWORK_COMPLETED'' (Some 1) (Some diagMalformed)))
        ''job1'' (Some ''alice''))
      = Some (YAMLException ''unexpected end of the stream within a flow collection'')"
proof -
  have l: "extractLauncherOutput (Some diagMalformed) = JStr ''AM failed''" by code_simp
  have r: "extractRuntimeOutput sampleSafeLoad (Some diagMalformed)
      = Inl (YAMLException ''unexpected end of the stream within a flow collection'')"
    by code_simp
  from r have "getJob sampleExitSpecList sampleSafeLoad
        (sampleLauncherGet (sampleFramework ''FRAMEWORK_COMPLETED'' (Some 1) (Some diagMalformed)))
        ''job1'' (Some ''alice'')
      = (None, Some (YAMLException ''unexpected end of the stream within a flow collection''))"
    by (simp add: getJob_def generateJobDetail_def generateJobStatusBody_def Let_def
        sampleFramework_def sampleStatus_def sampleLauncherGet_def)
  with l show ?thesis by simp
qed

text \<open>
  C9, as the code has it. In the job detail built by \<^verbatim>\<open>generateJobDetail\<close> the exit
  specification is that of the application exit code, whatever the job state:
  \<^verbatim>\<open>appExitSpec\<close> is \<^verbatim>\<open>null\<close> exactly when the framework status carries no exit code.
\<close>

theorem exit_spec_follows_exit_code:
  assumes "bodyOf (generateJobDetail L safeLoad fw) = Some b"
  shows "\<exists>st. fw_frameworkStatus fw = Some st
     \<and> js_state b = convertJobState (frameworkState st) (applicationExitCode st)
     \<and> js_appExitSpec b = generateExitSpec L (applicationExitCode st)
     \<and> (js_appExitSpec b = None \<longleftrightarrow> applicationExitCode st = None)"
proof -
  from body_of_detail [OF assms] obtain st where st: "fw_frameworkStatus fw = Some st"
    and b: "generateJobStatusBody L safeLoad fw st = Inr b" by blast
  have "generateExitSpec L (applicationExitCode st) = None \<longleftrightarrow> applicationExitCode st = None"
    by (simp add: generateExitSpec_def split: option.splits)
  with body_fields(1,2) [OF b] st show ?thesis by simp
qed

theorem exit_spec_follows_exit_code_witness:
  "map_option js_state (bodyOf (generateJobDetail sampleExitSpecList sampleSafeLoad
       (sampleFramework ''APPLICATION_RUNNING'' None None))) = Some ''RUNNING''
   \<and> map_option js_appExitSpec (bodyOf (generateJobDetail sampleExitSpecList sampleSafeLoad
       (sampleFramework ''APPLICATION_RUNNING'' None None))) = Some None"
proof -
  obtain b where b: "bodyOf (generateJobDetail sampleExitSpecList sampleSafeLoad
       (sampleFramework ''APPLICATION_RUNNING'' None None)) = Some b"
    by (simp add: bodyOf_def generateJobDetail_def generateJobStatusBody_def Let_def
        sampleFramework_def sampleStatus_def extractRuntimeOutput_def)
  from exit_spec_follows_exit_code [OF b]
  have "js_state b = ''RUNNING'' \<and> js_appExitSpec b = None"
    by (simp add: sampleFramework_def sampleStatus_def convertJobState_def generateExitSpec_def)
  with b show ?thesis by simp
qed

text \<open>
  C9, as the claim states it, fails: a framework in state \<^verbatim>\<open>APPLICATION_COMPLETED\<close> with
  application exit code 1 is translated to \<^verbatim>\<open>WAITING\<close>, and its job detail carries an exit
  specification.
\<close>

theorem exit_spec_nonterminal_counterexample:
  "map_option js_state (bodyOf (generateJobDetail sampleExitSpecList sampleSafeLoad
       (sampleFramework ''APPLICATION_COMPLETED'' (Some 1) None))) = Some ''WAITING''
   \<and> map_option js_appExitSpec (bodyOf (generateJobDetail sampleExitSpecList sampleSafeLoad
       (sampleFramework ''APPLICATION_COMPLETED'' (Some 1) None)))
     = Some (Some \<lparr>code = 1, attrs = [(''phrase'', ''UnknownPositiveExitCode'')]\<rparr>)"
  by (simp add: bodyOf_def generateJobDetail_def generateJobStatusBody_def Let_def
      sampleFramework_def sampleStatus_def extractRuntimeOutput_def convertJobState_def
      generateExitSpec_def exitSpecMap_def sampleExitSpecList_def spreadWithCode_def
      positiveFallbackExitCode_def)

lemma summarize_retries:
  "job_retries (summarizeFramework t info) =
     transientNormalRetriedCount (sfi_frameworkRetryPolicyState info)
     + transientConflictRetriedCount (sfi_frameworkRetryPolicyState info)
     + unKnownRetriedCount (sfi_frameworkRetryPolicyState info)
   \<and> job_retryDetails (summarizeFramework t info) =
     \<lparr>rd_user = unKnownRetriedCount (sfi_frameworkRetryPolicyState info),
      rd_platform = transientNormalRetriedCount (sfi_frameworkRetryPolicyState info),
      rd_resource = transientConflictRetriedCount (sfi_frameworkRetryPolicyState info)\<rparr>"
  by (simp add: summarizeFramework_def Let_def split: option.splits)

text \<open>
  C6. When \<^verbatim>\<open>getJobList\<close> returns a list, the response carried framework summaries, the
  list has one job for each of them, and every job of the list is the summary of one of
  these documents; the summary of a document reports in \<^verbatim>\<open>retryDetails\<close> that document's
  three counters (\<^verbatim>\<open>platform\<close> the transient-normal, \<^verbatim>\<open>resource\<close> the transient-conflict,
  \<^verbatim>\<open>user\<close> the unknown retried count) and in \<^verbatim>\<open>retries\<close> their sum. In the job status
  built by \<^verbatim>\<open>generateJobDetail\<close>, \<^verbatim>\<open>retryDetails\<close> holds the three counters of the framework
  status and \<^verbatim>\<open>retries\<close> is their sum. In both, \<^verbatim>\<open>retries\<close> equals
  \<^verbatim>\<open>platform + resource + user\<close> of the reported \<^verbatim>\<open>retryDetails\<close>.
\<close>

theorem retries_total_is_sum:
  "(getJobList t res = (Some jobs, err) \<longrightarrow>
      (\<exists>infos. res_body res = Inr infos
         \<and> length jobs = length infos
         \<and> set jobs = summarizeFramework t ` set infos
         \<and> (\<forall>job \<in> set jobs.
               job_retries job = rd_platform (job_retryDetails job) + rd_resource (job_retryDetails job)
                                   + rd_user (job_retryDetails job))
         \<and> (\<forall>info \<in> set infos.
               rd_platform (job_retryDetails (summarizeFramework t info))
                 = transientNormalRetriedCount (sfi_frameworkRetryPolicyState info)
               \<and> rd_resource (job_retryDetails (summarizeFramework t info))
                 = transientConflictRetriedCount (sfi_frameworkRetryPolicyState info)
               \<and> rd_user (job_retryDetails (summarizeFramework t info))
                 = unKnownRetriedCount (sfi_frameworkRetryPolicyState info)
               \<and> job_retries (summarizeFramework t info)
                 = transientNormalRetriedCount (sfi_frameworkRetryPolicyState info)
                   + transientConflictRetriedCount (sfi_frameworkRetryPolicyState info)
                   + unKnownRetriedCount (sfi_frameworkRetryPolicyState info))))
   \<and> (bodyOf (generateJobDetail L safeLoad fw) = Some b \<longrightarrow>
        js_retries b = rd_platform (js_retryDetails b) + rd_resource (js_retryDetails b)
                         + rd_user (js_retryDetails b)
        \<and> (\<exists>st. fw_frameworkStatus fw = Some st
              \<and> rd_platform (js_retryDetails b) = transientNormalRetriedCount (frameworkRetryPolicyState st)
              \<and> rd_resource (js_retryDetails b) = transientConflictRetriedCount (frameworkRetryPolicyState st)
              \<and> rd_user (js_retryDetails b) = unKnownRetriedCount (frameworkRetryPolicyState st)))"
proof (intro conjI impI)
  assume g: "getJobList t res = (Some jobs, err)"
  then obtain infos where body: "res_body res = Inr infos"
    and jobs: "jobs = sort_key (\<lambda>job. - job_createdTime job) (map (summarizeFramework t) infos)"
    by (auto simp: getJobList_def split: sum.splits if_splits)
  from jobs have len: "length jobs = length infos" by simp
  from jobs have st: "set jobs = summarizeFramework t ` set infos" by simp
  have own: "\<forall>job \<in> set jobs.
      job_retries job = rd_platform (job_retryDetails job) + rd_resource (job_retryDetails job)
                          + rd_user (job_retryDetails job)"
  proof
    fix job assume "job \<in> set jobs"
    with st obtain info where "job = summarizeFramework t info" by auto
    then show "job_retries job = rd_platform (job_retryDetails job) + rd_resource (job_retryDetails job)
                          + rd_user (job_retryDetails job)"
      using summarize_retries [of t info] by simp
  qed
  have doc: "\<forall>info \<in> set infos.
      rd_platform (job_retryDetails (summarizeFramework t info))
        = transientNormalRetriedCount (sfi_frameworkRetryPolicyState info)
      \<and> rd_resource (job_retryDetails (summarizeFramework t info))
        = transientConflictRetriedCount (sfi_frameworkRetryPolicyState info)
      \<and> rd_user (job_retryDetails (summarizeFramework t info))
        = unKnownRetriedCount (sfi_frameworkRetryPolicyState info)
      \<and> job_retries (summarizeFramework t info)
        = transientNormalRetriedCount (sfi_frameworkRetryPolicyState info)
          + transientConflictRetriedCount (sfi_frameworkRetryPolicyState info)
          + unKnownRetriedCount (sfi_frameworkRetryPolicyState info)"
  proof
    fix info
    show "rd_platform (job_retryDetails (summarizeFramework t info))
        = transientNormalRetriedCount (sfi_frameworkRetryPolicyState info)
      \<and> rd_resource (job_retryDetails (summarizeFramework t info))
        = transientConflictRetriedCount (sfi_frameworkRetryPolicyState info)
      \<and> rd_user (job_retryDetails (summarizeFramework t info))
        = unKnownRetriedCount (sfi_frameworkRetryPolicyState info)
      \<and> job_retries (summarizeFramework t info)
        = transientNormalRetriedCount (sfi_frameworkRetryPolicyState info)
          + transientConflictRetriedCount (sfi_frameworkRetryPolicyState info)
          + unKnownRetriedCount (sfi_frameworkRetryPolicyState info)"
      using summarize_retries [of t info] by simp
  qed
  from body len st own doc
  show "\<exists>infos. res_body res = Inr infos
         \<and> length jobs = length infos
         \<and> set jobs = summarizeFramework t ` set infos
         \<and> (\<forall>job \<in> set jobs.
               job_retries job = rd_platform (job_retryDetails job) + rd_resource (job_retryDetails job)
                                   + rd_user (job_retryDetails job))
         \<and> (\<forall>info \<in> set infos.
               rd_platform (job_retryDetails (summarizeFramework t info))
                 = transientNormalRetriedCount (sfi_frameworkRetryPolicyState info)
               \<and> rd_resource (job_retryDetails (summarizeFramework t info))
                 = transientConflictRetriedCount (sfi_frameworkRetryPolicyState info)
               \<and> rd_user (job_retryDetails (summarizeFramework t info))
                 = unKnownRetriedCount (sfi_frameworkRetryPolicyState info)
               \<and> job_retries (summarizeFramework t info)
                 = transientNormalRetriedCount (sfi_frameworkRetryPolicyState info)
                   + transientConflictRetriedCount (sfi_frameworkRetryPolicyState info)
                   + unKnownRetriedCount (sfi_frameworkRetryPolicyState info))"
    by (intro exI [of _ infos] conjI)
next
  assume a: "bodyOf (generateJobDetail L safeLoad fw) = Some b"
  from body_of_detail [OF a] obtain st where st: "fw_frameworkStatus fw = Some st"
    and b: "generateJobStatusBody L safeLoad fw st = Inr b" by blast
  note r = body_fields(3) [OF b] and d = body_fields(4) [OF b]
  from r d show "js_retries b = rd_platform (js_retryDetails b) + rd_resource (js_retryDetails b)
                         + rd_user (js_retryDetails b)" by simp
  from d st show "\<exists>st. fw_frameworkStatus fw = Some st
              \<and> rd_platform (js_retryDetails b) = transientNormalRetriedCount (frameworkRetryPolicyState st)
              \<and> rd_resource (js_retryDetails b) = transientConflictRetriedCount (frameworkRetryPolicyState st)
              \<and> rd_user (js_retryDetails b) = unKnownRetriedCount (frameworkRetryPolicyState st)"
    by simp
qed

theorem retries_total_is_sum_witness:
  "map job_retries (the (fst (getJobList 1517443200000 sampleListResponse))) = [6, 6]
   \<and> map job_retryDetails (the (fst (getJobList 1517443200000 sampleListResponse)))
      = [\<lparr>rd_user = 3, rd_platform = 1, rd_resource = 2\<rparr>,
         \<lparr>rd_user = 3, rd_platform = 1, rd_resource = 2\<rparr>]
   \<and> map_option js_retries (bodyOf (generateJobDetail sampleExitSpecList sampleSafeLoad
        (sampleFramework ''APPLICATION_RUNNING'' None None))) = Some 6
   \<and> map_option js_retryDetails (bodyOf (generateJobDetail sampleExitSpecList sampleSafeLoad
        (sampleFramework ''APPLICATION_RUNNING'' None None)))
      = Some \<lparr>rd_user = 3, rd_platform = 1, rd_resource = 2\<rparr>"
proof -
  obtain jobs where jobs: "getJobList 1517443200000 sampleListResponse = (Some jobs, None)"
    by (simp add: getJobList_def sampleListResponse_def)
  obtain b where b: "bodyOf (generateJobDetail sampleExitSpecList sampleSafeLoad
       (sampleFramework ''APPLICATION_RUNNING'' None None)) = Some b"
    by (simp add: bodyOf_def generateJobDetail_def generateJobStatusBody_def Let_def
        sampleFramework_def sampleStatus_def extractRuntimeOutput_def)
  note inst = retries_total_is_sum [of 1517443200000 sampleListResponse jobs None
      sampleExitSpecList sampleSafeLoad "sampleFramework ''APPLICATION_RUNNING'' None None" b]
  have d: "map job_retryDetails jobs
      = [\<lparr>rd_user = 3, rd_platform = 1, rd_resource = 2\<rparr>,
         \<lparr>rd_user = 3, rd_platform = 1, rd_resource = 2\<rparr>]"
    using jobs
    by (auto simp: getJobList_def sampleListResponse_def sampleInfo_def summarizeFramework_def
        Let_def sampleRetryState_def sort_key_def)
  from inst jobs have "\<forall>job \<in> set jobs.
      job_retries job = rd_platform (job_retryDetails job) + rd_resource (job_retryDetails job)
                          + rd_user (job_retryDetails job)"
    by auto
  then have "map job_retries jobs
      = map (\<lambda>job. rd_platform job + rd_resource job + rd_user job) (map job_retryDetails jobs)"
    by simp
  with d have j: "map job_retries jobs = [6, 6]" by simp
  from inst b have "js_retries b = rd_platform (js_retryDetails b) + rd_resource (js_retryDetails b)
                         + rd_user (js_retryDetails b)
      \<and> js_retryDetails b = \<lparr>rd_user = 3, rd_platform = 1, rd_resource = 2\<rparr>"
    by (auto simp: sampleFramework_def sampleStatus_def sampleRetryState_def)
  then have "js_retries b = 6 \<and> js_retryDetails b = \<lparr>rd_user = 3, rd_platform = 1, rd_resource = 2\<rparr>"
    by simp
  with j d jobs b show ?thesis by simp
qed

section \<open>Framework description: results\<close>

lemma fold_update_map_of:
  "map_of (fold (\<lambda>x acc. AList.update (k x) (v x) acc) xs acc0) l =
     (case find (\<lambda>x. k x = l) (rev xs) of Some x \<Rightarrow> Some (v x) | None \<Rightarrow> map_of acc0 l)"
  by (induction xs arbitrary: acc0) (auto simp: find_app AList.update_conv' split: option.splits)

lemma fold_update_distinct:
  "distinct (map fst acc0) \<Longrightarrow> distinct (map fst (fold (\<lambda>x acc. AList.update (k x) (v x) acc) xs acc0))"
  by (induction xs arbitrary: acc0) (simp_all add: AList.distinct_update)

lemma fold_update_keys:
  "fst ` set (fold (\<lambda>x acc. AList.update (k x) (v x) acc) xs acc0) = k ` set xs \<union> fst ` set acc0"
  by (induction xs arbitrary: acc0) (auto simp: AList.dom_update)

text \<open>A run of assignments is the run of updates for the names other than
  \<^verbatim>\<open>__proto__\<close>.\<close>

lemma fold_assign_filter:
  "fold (\<lambda>x acc. assignProperty (k x) (v x) acc) xs acc0
     = fold (\<lambda>x acc. AList.update (k x) (v x) acc) (filter (\<lambda>x. k x \<noteq> ''__proto__'') xs) acc0"
  by (induction xs arbitrary: acc0) (simp_all add: assignProperty_def)

lemma find_filter_implied:
  "(\<And>x. P x \<Longrightarrow> Q x) \<Longrightarrow> find P (filter Q xs) = find P xs"
  by (induction xs) auto

lemma find_rev_filter_key:
  assumes "l \<noteq> ''__proto__''"
  shows "find (\<lambda>x. k x = l) (rev (filter (\<lambda>x. k x \<noteq> ''__proto__'') xs)) = find (\<lambda>x. k x = l) (rev xs)"
proof -
  have "find (\<lambda>x. k x = l) (filter (\<lambda>x. k x \<noteq> ''__proto__'') (rev xs)) = find (\<lambda>x. k x = l) (rev xs)"
    using assms by (intro find_filter_implied) simp
  then show ?thesis by (simp only: rev_filter)
qed

lemma count_list_distinct: "distinct xs \<Longrightarrow> x \<in> set xs \<Longrightarrow> count_list xs x = 1"
  by (induction xs) (auto simp: count_notin)

lemma find_last_index:
  "i < n \<Longrightarrow> (\<forall>j. i < j \<and> j < n \<longrightarrow> k j \<noteq> k i) \<Longrightarrow> find (\<lambda>j. k j = k i) (rev [0 ..< n]) = Some i"
proof (induction n)
  case 0
  then show ?case by simp
next
  case (Suc n)
  show ?case
  proof (cases "i = n")
    case True
    then show ?thesis by simp
  next
    case False
    with Suc.prems have "i < n" and "k n \<noteq> k i" by auto
    moreover from Suc.prems have "\<forall>j. i < j \<and> j < n \<longrightarrow> k j \<noteq> k i" by auto
    ultimately show ?thesis using Suc.IH by simp
  qed
qed

text \<open>The first inner loop leaves, for each label other than \<^verbatim>\<open>__proto__\<close>, the definition
  of the last port of the list carrying it, and nothing for \<^verbatim>\<open>__proto__\<close>.\<close>

lemma suppliedPorts_map_of:
  assumes "l \<noteq> ''__proto__''"
  shows "map_of (suppliedPorts ports) l =
     map_option (\<lambda>p. \<lparr>pd_start = beginAt p, pd_count = portNumber p\<rparr>)
       (find (\<lambda>p. label p = l) (rev ports))"
  using find_rev_filter_key [OF assms, of label ports]
  by (simp add: suppliedPorts_def fold_assign_filter fold_update_map_of split: option.splits)

lemma suppliedPorts_distinct: "distinct (map fst (suppliedPorts ports))"
  by (simp add: suppliedPorts_def fold_assign_filter fold_update_distinct)

lemma suppliedPorts_keys: "fst ` set (suppliedPorts ports) = label ` set ports - {''__proto__''}"
proof -
  have "fst ` set (suppliedPorts ports)
      = label ` set (filter (\<lambda>p. label p \<noteq> ''__proto__'') ports) \<union> fst ` set []"
    using fold_update_keys [of label _ "filter (\<lambda>p. label p \<noteq> ''__proto__'') ports" "[]"]
    by (simp add: suppliedPorts_def fold_assign_filter)
  then show ?thesis by auto
qed

lemma key_in_alist: "k \<in> fst ` set al \<longleftrightarrow> map_of al k \<noteq> None"
  by (simp add: map_of_eq_None_iff)

lemma assign_default:
  "assignProperty ''http'' v obj = AList.update ''http'' v obj"
  "assignProperty ''ssh'' v obj = AList.update ''ssh'' v obj"
  by (simp_all add: assignProperty_def)

lemma addDefaultPorts_map_of:
  "map_of (addDefaultPorts pl) l =
     (case map_of pl l of
        Some d \<Rightarrow> Some d
      | None \<Rightarrow> if l = ''http'' \<or> l = ''ssh'' then Some \<lparr>pd_start = 0, pd_count = 1\<rparr> else None)"
  by (auto simp: addDefaultPorts_def key_in_alist assign_default AList.update_conv'
      split: option.splits)

lemma addDefaultPorts_distinct:
  "distinct (map fst pl) \<Longrightarrow> distinct (map fst (addDefaultPorts pl))"
  by (simp add: addDefaultPorts_def assign_default AList.distinct_update)

lemma addDefaultPorts_keys:
  "fst ` set (addDefaultPorts pl) = fst ` set pl \<union> {''http'', ''ssh''}"
  by (auto simp: addDefaultPorts_def assign_default AList.dom_update)

text \<open>The port definitions of the task role built at index \<open>i\<close>.\<close>

lemma portDefinitionsOf_role:
  "portDefinitionsOf (taskRoleDescriptionOf data i)
     = addDefaultPorts (suppliedPorts (portList (taskRoles data ! i)))"
  by (simp add: portDefinitionsOf_def taskRoleDescriptionOf_def Let_def)

text \<open>
  What the loops of \<^verbatim>\<open>generateFrameworkDescription\<close> achieve for ordinary names. Take a task
  role of the job specification whose name is not \<^verbatim>\<open>__proto__\<close> and that no later role of
  the list shares its name with. The framework description has under that name the task
  role built from it, and in its port definitions: each of the labels \<^verbatim>\<open>http\<close> and \<^verbatim>\<open>ssh\<close>
  that the role's port list lacks occurs exactly once, with start 0 and count 1; each
  supplied label other than \<^verbatim>\<open>__proto__\<close> occurs exactly once, with the start and the count
  of the (last) port carrying that label; the label \<^verbatim>\<open>__proto__\<close> does not occur; and there
  are no other labels.
\<close>

lemma default_ports_injected:
  assumes "i < length (taskRoles data)"
    and "name (taskRoles data ! i) \<noteq> ''__proto__''"
    and "\<forall>j. i < j \<and> j < length (taskRoles data)
           \<longrightarrow> name (taskRoles data ! j) \<noteq> name (taskRoles data ! i)"
  shows "\<exists>desc ports.
      map_of (fd_taskRoles (generateFrameworkDescription cfg data)) (name (taskRoles data ! i)) = Some desc
    \<and> desc = taskRoleDescriptionOf data i
    \<and> ports = portDefinitionsOf desc
    \<and> (\<forall>l \<in> {''http'', ''ssh''}. l \<notin> label ` set (portList (taskRoles data ! i)) \<longrightarrow>
          map_of ports l = Some \<lparr>pd_start = 0, pd_count = 1\<rparr> \<and> count_list (map fst ports) l = 1)
    \<and> (\<forall>p \<in> set (portList (taskRoles data ! i)). label p \<noteq> ''__proto__'' \<longrightarrow>
          (\<exists>q. find (\<lambda>q. label q = label p) (rev (portList (taskRoles data ! i))) = Some q
             \<and> map_of ports (label p) = Some \<lparr>pd_start = beginAt q, pd_count = portNumber q\<rparr>)
          \<and> count_list (map fst ports) (label p) = 1)
    \<and> (distinct (map label (portList (taskRoles data ! i))) \<longrightarrow>
          (\<forall>p \<in> set (portList (taskRoles data ! i)). label p \<noteq> ''__proto__'' \<longrightarrow>
             map_of ports (label p) = Some \<lparr>pd_start = beginAt p, pd_count = portNumber p\<rparr>))
    \<and> map_of ports ''__proto__'' = None
    \<and> set (map fst ports)
        = (label ` set (portList (taskRoles data ! i)) - {''__proto__''}) \<union> {''http'', ''ssh''}"
proof -
  define supplied where "supplied = portList (taskRoles data ! i)"
  define ports where "ports = portDefinitionsOf (taskRoleDescriptionOf data i)"
  have ports_eq: "ports = addDefaultPorts (suppliedPorts supplied)"
    by (simp add: ports_def supplied_def portDefinitionsOf_role)
  have dist: "distinct (map fst ports)"
    by (simp add: ports_eq addDefaultPorts_distinct suppliedPorts_distinct)
  have keys: "set (map fst ports) = (label ` set supplied - {''__proto__''}) \<union> {''http'', ''ssh''}"
    by (simp add: ports_eq addDefaultPorts_keys suppliedPorts_keys)
  have look: "map_of ports l =
      (case find (\<lambda>p. label p = l) (rev supplied) of
         Some q \<Rightarrow> Some \<lparr>pd_start = beginAt q, pd_count = portNumber q\<rparr>
       | None \<Rightarrow> if l = ''http'' \<or> l = ''ssh'' then Some \<lparr>pd_start = 0, pd_count = 1\<rparr> else None)"
    if "l \<noteq> ''__proto__''" for l
    by (simp add: ports_eq addDefaultPorts_map_of suppliedPorts_map_of [OF that] split: option.splits)
  have proto: "map_of ports ''__proto__'' = None"
  proof -
    have "''__proto__'' \<notin> set (map fst ports)" unfolding keys by simp
    then show ?thesis by (simp add: map_of_eq_None_iff)
  qed
  have absent: "find (\<lambda>p. label p = l) (rev supplied) = None" if "l \<notin> label ` set supplied" for l
    using that by (auto simp: find_None_iff)
  have present: "\<exists>q. find (\<lambda>q. label q = label p) (rev supplied) = Some q" if "p \<in> set supplied" for p
  proof (cases "find (\<lambda>q. label q = label p) (rev supplied)")
    case None
    with that show ?thesis by (auto simp: find_None_iff)
  next
    case (Some q)
    then show ?thesis by (intro exI)
  qed
  have role: "map_of (fd_taskRoles (generateFrameworkDescription cfg data)) (name (taskRoles data ! i))
      = Some (taskRoleDescriptionOf data i)"
    using find_last_index [of i "length (taskRoles data)" "\<lambda>j. name (taskRoles data ! j)"] assms
      find_rev_filter_key [OF assms(2), of "\<lambda>j. name (taskRoles data ! j)" "[0 ..< length (taskRoles data)]"]
    by (simp add: generateFrameworkDescription_def fold_assign_filter fold_update_map_of)
  have d1: "\<forall>l \<in> {''http'', ''ssh''}. l \<notin> label ` set supplied \<longrightarrow>
          map_of ports l = Some \<lparr>pd_start = 0, pd_count = 1\<rparr> \<and> count_list (map fst ports) l = 1"
  proof (intro ballI impI)
    fix l :: string
    assume l: "l \<in> {''http'', ''ssh''}" and n: "l \<notin> label ` set supplied"
    from l have hs: "l = ''http'' \<or> l = ''ssh''" by simp
    then have np: "l \<noteq> ''__proto__''" by auto
    from hs keys have "l \<in> set (map fst ports)" by auto
    with dist have "count_list (map fst ports) l = 1" by (rule count_list_distinct)
    moreover from hs absent [OF n] have "map_of ports l = Some \<lparr>pd_start = 0, pd_count = 1\<rparr>"
      by (simp only: look [OF np] option.case if_True)
    ultimately show "map_of ports l = Some \<lparr>pd_start = 0, pd_count = 1\<rparr>
        \<and> count_list (map fst ports) l = 1" by simp
  qed
  have d2: "\<forall>p \<in> set supplied. label p \<noteq> ''__proto__'' \<longrightarrow>
          (\<exists>q. find (\<lambda>q. label q = label p) (rev supplied) = Some q
             \<and> map_of ports (label p) = Some \<lparr>pd_start = beginAt q, pd_count = portNumber q\<rparr>)
          \<and> count_list (map fst ports) (label p) = 1"
  proof (intro ballI impI)
    fix p assume p: "p \<in> set supplied" and np: "label p \<noteq> ''__proto__''"
    from present [OF p] obtain q where q: "find (\<lambda>q. label q = label p) (rev supplied) = Some q"
      by (elim exE)
    then have m: "map_of ports (label p) = Some \<lparr>pd_start = beginAt q, pd_count = portNumber q\<rparr>"
      by (simp only: look [OF np] option.case)
    from p np keys have "label p \<in> set (map fst ports)" by auto
    with dist have c: "count_list (map fst ports) (label p) = 1" by (rule count_list_distinct)
    from q m have "\<exists>q. find (\<lambda>q. label q = label p) (rev supplied) = Some q
             \<and> map_of ports (label p) = Some \<lparr>pd_start = beginAt q, pd_count = portNumber q\<rparr>"
      by (intro exI [of _ q] conjI)
    with c show "(\<exists>q. find (\<lambda>q. label q = label p) (rev supplied) = Some q
             \<and> map_of ports (label p) = Some \<lparr>pd_start = beginAt q, pd_count = portNumber q\<rparr>)
          \<and> count_list (map fst ports) (label p) = 1"
      by (intro conjI)
  qed
  have d3: "distinct (map label supplied) \<longrightarrow>
          (\<forall>p \<in> set supplied. label p \<noteq> ''__proto__'' \<longrightarrow>
             map_of ports (label p) = Some \<lparr>pd_start = beginAt p, pd_count = portNumber p\<rparr>)"
  proof (intro impI ballI)
    fix p assume ds: "distinct (map label supplied)" and p: "p \<in> set supplied"
      and np: "label p \<noteq> ''__proto__''"
    from present [OF p] obtain q where q: "find (\<lambda>q. label q = label p) (rev supplied) = Some q"
      by (elim exE)
    from find_SomeD [OF q] have "q \<in> set supplied" and "label q = label p" by simp_all
    with ds p have "q = p" by (meson distinct_map inj_onD)
    with q show "map_of ports (label p) = Some \<lparr>pd_start = beginAt p, pd_count = portNumber p\<rparr>"
      by (simp only: look [OF np] option.case)
  qed
  from role d1 d2 d3 proto keys
  have "map_of (fd_taskRoles (generateFrameworkDescription cfg data)) (name (taskRoles data ! i))
        = Some (taskRoleDescriptionOf data i)
    \<and> taskRoleDescriptionOf data i = taskRoleDescriptionOf data i
    \<and> ports = portDefinitionsOf (taskRoleDescriptionOf data i)
    \<and> (\<forall>l \<in> {''http'', ''ssh''}. l \<notin> label ` set supplied \<longrightarrow>
          map_of ports l = Some \<lparr>pd_start = 0, pd_count = 1\<rparr> \<and> count_list (map fst ports) l = 1)
    \<and> (\<forall>p \<in> set supplied. label p \<noteq> ''__proto__'' \<longrightarrow>
          (\<exists>q. find (\<lambda>q. label q = label p) (rev supplied) = Some q
             \<and> map_of ports (label p) = Some \<lparr>pd_start = beginAt q, pd_count = portNumber q\<rparr>)
          \<and> count_list (map fst ports) (label p) = 1)
    \<and> (distinct (map label supplied) \<longrightarrow>
          (\<forall>p \<in> set supplied. label p \<noteq> ''__proto__'' \<longrightarrow>
             map_of ports (label p) = Some \<lparr>pd_start = beginAt p, pd_count = portNumber p\<rparr>))
    \<and> map_of ports ''__proto__'' = None
    \<and> set (map fst ports) = (label ` set supplied - {''__proto__''}) \<union> {''http'', ''ssh''}"
    unfolding ports_def by (intro conjI) simp_all
  then show ?thesis
    unfolding supplied_def by (intro exI)
qed

lemma default_ports_injected_sample:
  "map_of (fd_taskRoles (generateFrameworkDescription sampleConfig sampleData)) ''worker''
     = Some (taskRoleDescriptionOf sampleData 0)
   \<and> portDefinitionsOf (taskRoleDescriptionOf sampleData 0)
     = [(''ssh'', \<lparr>pd_start = 5000, pd_count = 1\<rparr>),
        (''tensorboard'', \<lparr>pd_start = 6006, pd_count = 2\<rparr>),
        (''http'', \<lparr>pd_start = 0, pd_count = 1\<rparr>)]
   \<and> map_of (fd_taskRoles (generateFrameworkDescription sampleConfig sampleData)) ''ps''
     = Some (taskRoleDescriptionOf sampleData 1)
   \<and> portDefinitionsOf (taskRoleDescriptionOf sampleData 1)
     = [(''http'', \<lparr>pd_start = 0, pd_count = 1\<rparr>), (''ssh'', \<lparr>pd_start = 0, pd_count = 1\<rparr>)]"
proof -
  have len: "length (taskRoles sampleData) = 2"
    and r0: "taskRoles sampleData ! 0 = sampleWorker"
    and r1: "taskRoles sampleData ! 1 = samplePs"
    by (simp_all add: sampleData_def)
  have n0: "name sampleWorker = ''worker''" and n1: "name samplePs = ''ps''"
    by (simp_all add: sampleWorker_def samplePs_def)
  have o0: "name (taskRoles sampleData ! 0) \<noteq> ''__proto__''"
    and o1: "name (taskRoles sampleData ! 1) \<noteq> ''__proto__''"
    by (simp_all add: sampleData_def sampleWorker_def samplePs_def)
  have later: "\<forall>j. 0 < j \<and> j < length (taskRoles sampleData)
      \<longrightarrow> name (taskRoles sampleData ! j) \<noteq> name (taskRoles sampleData ! 0)"
  proof (intro allI impI)
    fix j assume "0 < j \<and> j < length (taskRoles sampleData)"
    with len have "j = 1" by simp
    with r0 r1 n0 n1 show "name (taskRoles sampleData ! j) \<noteq> name (taskRoles sampleData ! 0)"
      by simp
  qed
  have later1: "\<forall>j. 1 < j \<and> j < length (taskRoles sampleData)
      \<longrightarrow> name (taskRoles sampleData ! j) \<noteq> name (taskRoles sampleData ! 1)"
  proof (intro allI impI)
    fix j assume "1 < j \<and> j < length (taskRoles sampleData)"
    with len have False by arith
    then show "name (taskRoles sampleData ! j) \<noteq> name (taskRoles sampleData ! 1)" ..
  qed
  have i0: "0 < length (taskRoles sampleData)" and i1: "1 < length (taskRoles sampleData)"
    using len by simp_all
  from default_ports_injected [of 0 sampleData sampleConfig, OF i0 o0 later]
  have "map_of (fd_taskRoles (generateFrameworkDescription sampleConfig sampleData))
      (name (taskRoles sampleData ! 0)) = Some (taskRoleDescriptionOf sampleData 0)"
    by (elim exE conjE) (simp only:)
  then have w: "map_of (fd_taskRoles (generateFrameworkDescription sampleConfig sampleData)) ''worker''
      = Some (taskRoleDescriptionOf sampleData 0)"
    by (simp only: r0 n0)
  from default_ports_injected [of 1 sampleData sampleConfig, OF i1 o1 later1]
  have "map_of (fd_taskRoles (generateFrameworkDescription sampleConfig sampleData))
      (name (taskRoles sampleData ! 1)) = Some (taskRoleDescriptionOf sampleData 1)"
    by (elim exE conjE) (simp only:)
  then have p: "map_of (fd_taskRoles (generateFrameworkDescription sampleConfig sampleData)) ''ps''
      = Some (taskRoleDescriptionOf sampleData 1)"
    by (simp only: r1 n1)
  have pw: "portDefinitionsOf (taskRoleDescriptionOf sampleData 0)
     = [(''ssh'', \<lparr>pd_start = 5000, pd_count = 1\<rparr>),
        (''tensorboard'', \<lparr>pd_start = 6006, pd_count = 2\<rparr>),
        (''http'', \<lparr>pd_start = 0, pd_count = 1\<rparr>)]"
    by (simp add: portDefinitionsOf_role sampleData_def sampleWorker_def suppliedPorts_def
        addDefaultPorts_def assignProperty_def)
  have pp: "portDefinitionsOf (taskRoleDescriptionOf sampleData 1)
     = [(''http'', \<lparr>pd_start = 0, pd_count = 1\<rparr>), (''ssh'', \<lparr>pd_start = 0, pd_count = 1\<rparr>)]"
    by (simp add: portDefinitionsOf_role sampleData_def samplePs_def suppliedPorts_def
        addDefaultPorts_def assignProperty_def)
  from w p pw pp show ?thesis by simp
qed

text \<open>
  C8 fails on the code for a port labelled \<^verbatim>\<open>__proto__\<close>. The role \<^verbatim>\<open>worker\<close> of this job
  specification supplies the single port \<^verbatim>\<open>__proto__\<close> with start 8000 and count 1; the
  framework description has the role, with the two default ports injected, but the
  supplied port is not among its port definitions.
\<close>

theorem proto_port_dropped:
  "map label (portList (taskRoles protoData ! 0)) = [''__proto__'']
   \<and> map fst (fd_taskRoles (generateFrameworkDescription sampleConfig protoData)) = [''worker'']
   \<and> map_of (fd_taskRoles (generateFrameworkDescription sampleConfig protoData)) ''worker''
       = Some (taskRoleDescriptionOf protoData 0)
   \<and> portDefinitionsOf (taskRoleDescriptionOf protoData 0)
       = [(''http'', \<lparr>pd_start = 0, pd_count = 1\<rparr>), (''ssh'', \<lparr>pd_start = 0, pd_count = 1\<rparr>)]
   \<and> map_of (portDefinitionsOf (taskRoleDescriptionOf protoData 0)) ''__proto__'' = None"
  by (simp add: protoData_def sampleData_def sampleWorker_def generateFrameworkDescription_def
      portDefinitionsOf_role suppliedPorts_def addDefaultPorts_def assignProperty_def)

section \<open>Determinism of the generators: results\<close>









section \<open>Job submission: results\<close>

text \<open>
  C10, as the code has it. \<^verbatim>\<open>putJob\<close> assigns to the object it is given: afterwards
  \<^verbatim>\<open>jobName\<close> is the framework name, \<^verbatim>\<open>authFile\<close>, \<^verbatim>\<open>dataDir\<close> and \<^verbatim>\<open>codeDir\<close> are their
  former values with the placeholders substituted, and \<^verbatim>\<open>outputDir\<close> is the substituted
  former value, or the substituted default path under \<^verbatim>\<open>/Output\<close> when the original
  request named no output directory. Every other property is left as it was.
\<close>

theorem putJob_rewrites_data:
  "jobName (fst (putJob ev cfg jobname namespace data)) = frameworkNameOf namespace jobname
   \<and> authFile (fst (putJob ev cfg jobname namespace data))
       = substitutePath cfg jobname (userName data) (authFile data)
   \<and> dataDir (fst (putJob ev cfg jobname namespace data))
       = substitutePath cfg jobname (userName data) (dataDir data)
   \<and> codeDir (fst (putJob ev cfg jobname namespace data))
       = substitutePath cfg jobname (userName data) (codeDir data)
   \<and> outputDir (fst (putJob ev cfg jobname namespace data))
       = substitutePath cfg jobname (userName data)
           (if truthy (od_outputDir (originalData data)) then outputDir data
            else hdfsUri cfg @ ''/Output/'' @ userName data @ ''/'' @ jobname)
   \<and> userName (fst (putJob ev cfg jobname namespace data)) = userName data
   \<and> virtualCluster (fst (putJob ev cfg jobname namespace data)) = virtualCluster data
   \<and> gpuType (fst (putJob ev cfg jobname namespace data)) = gpuType data
   \<and> retryCount (fst (putJob ev cfg jobname namespace data)) = retryCount data
   \<and> taskRoles (fst (putJob ev cfg jobname namespace data)) = taskRoles data
   \<and> jobEnvs (fst (putJob ev cfg jobname namespace data)) = jobEnvs data
   \<and> originalData (fst (putJob ev cfg jobname namespace data)) = originalData data
   \<and> others (fst (putJob ev cfg jobname namespace data)) = others data"
  by (simp add: putJob_def putJobData_def Let_def)

theorem putJob_rewrites_data_witness:
  "jobName (fst (putJob (sampleEnv (Inl (KeygenError ''unsupported'')) ''775'') sampleConfig
       ''job1'' (Some ''alice'') sampleData)) = ''alice~job1''
   \<and> codeDir (fst (putJob (sampleEnv (Inl (KeygenError ''unsupported'')) ''775'') sampleConfig
       ''job1'' (Some ''alice'') sampleData)) = ''hdfs://10.0.0.1:9000/alice/job1/code''
   \<and> taskRoles (fst (putJob (sampleEnv (Inl (KeygenError ''unsupported'')) ''775'') sampleConfig
       ''job1'' (Some ''alice'') sampleData)) = [sampleWorker, samplePs]"
proof -
  have f: "frameworkNameOf (Some ''alice'') ''job1'' = ''alice~job1''"
    by (simp add: frameworkNameOf_def)
  have c: "substitutePath sampleConfig ''job1'' (userName sampleData) (codeDir sampleData)
      = ''hdfs://10.0.0.1:9000/alice/job1/code''"
    by code_simp
  have t: "taskRoles sampleData = [sampleWorker, samplePs]" by (simp add: sampleData_def)
  from putJob_rewrites_data [of "sampleEnv (Inl (KeygenError ''unsupported'')) ''775''" sampleConfig
      "''job1''" "Some ''alice''" sampleData] f c t
  show ?thesis by simp
qed

text \<open>
  C10, as the claim states it, fails: after a submission in the namespace \<^verbatim>\<open>alice\<close> the job
  specification holds another \<^verbatim>\<open>jobName\<close>, a \<^verbatim>\<open>dataDir\<close> with its placeholders replaced and an
  \<^verbatim>\<open>outputDir\<close> it did not have.
\<close>

theorem putJob_mutates_counterexample:
  "jobName sampleData = ''job1''
   \<and> jobName (fst (putJob (sampleEnv (Inl (KeygenError ''unsupported'')) ''775'') sampleConfig
       ''job1'' (Some ''alice'') sampleData)) = ''alice~job1''
   \<and> dataDir sampleData = ''$PAI_DEFAULT_FS_URI/data/$PAI_USER_NAME''
   \<and> dataDir (fst (putJob (sampleEnv (Inl (KeygenError ''unsupported'')) ''775'') sampleConfig
       ''job1'' (Some ''alice'') sampleData)) = ''hdfs://10.0.0.1:9000/data/alice''
   \<and> outputDir sampleData = []
   \<and> outputDir (fst (putJob (sampleEnv (Inl (KeygenError ''unsupported'')) ''775'') sampleConfig
       ''job1'' (Some ''alice'') sampleData)) = ''hdfs://10.0.0.1:9000/Output/alice/job1''"
  by code_simp







end
